theory Spec2Isabelle
  imports Main
begin

section \<open>Python values\<close>

text \<open>
  A Python \<open>str\<close> is a sequence of Unicode code points, a \<open>bytes\<close> object a sequence
  of octets. The two are kept apart because the deployer converts between them
  (\<open>encode('ascii')\<close>, \<open>decode('utf-8')\<close>) and both conversions can raise.
\<close>

type_synonym pystr = "nat list"
type_synonym bytes = "char list"

text \<open>A \<open>str\<close> literal of the source, written with its (ASCII) characters.\<close>

definition lit :: "string \<Rightarrow> pystr" where
  "lit s = map of_char s"

datatype error =
    UnicodeDecodeError
  | UnicodeEncodeError
  | KeyError pystr
  | IndexError
  | ValueError
  | FileNotFoundError
  | CalledProcessError int

subsection \<open>\<open>bytes.decode('utf-8')\<close>\<close>

text \<open>
  The strict UTF-8 decoder: a lead byte announces one to four bytes, every following byte
  is a continuation byte \<open>10xxxxxx\<close>, and overlong forms, surrogates and values above
  \<open>U+10FFFF\<close> are rejected. Any violation raises \<open>UnicodeDecodeError\<close>.
\<close>

definition continuation :: "nat \<Rightarrow> bool" where
  "continuation b \<longleftrightarrow> 128 \<le> b \<and> b < 192"

definition push :: "nat \<Rightarrow> error + pystr \<Rightarrow> error + pystr" where
  "push c r = (case r of Inl e \<Rightarrow> Inl e | Inr s \<Rightarrow> Inr (c # s))"

fun utf8_dec :: "nat list \<Rightarrow> error + pystr" where
  "utf8_dec [] = Inr []"
| "utf8_dec (b0 # bs) =
    (if b0 < 128 then push b0 (utf8_dec bs)
     else if 192 \<le> b0 \<and> b0 < 224 then
       (case bs of
          b1 # r \<Rightarrow>
            (let c = (b0 - 192) * 64 + (b1 - 128)
             in if continuation b1 \<and> 128 \<le> c then push c (utf8_dec r)
                else Inl UnicodeDecodeError)
        | _ \<Rightarrow> Inl UnicodeDecodeError)
     else if 224 \<le> b0 \<and> b0 < 240 then
       (case bs of
          b1 # b2 # r \<Rightarrow>
            (let c = (b0 - 224) * 4096 + (b1 - 128) * 64 + (b2 - 128)
             in if continuation b1 \<and> continuation b2 \<and> 2048 \<le> c
                   \<and> \<not> (55296 \<le> c \<and> c < 57344)
                then push c (utf8_dec r)
                else Inl UnicodeDecodeError)
        | _ \<Rightarrow> Inl UnicodeDecodeError)
     else if 240 \<le> b0 \<and> b0 < 248 then
       (case bs of
          b1 # b2 # b3 # r \<Rightarrow>
            (let c = (b0 - 240) * 262144 + (b1 - 128) * 4096 + (b2 - 128) * 64 + (b3 - 128)
             in if continuation b1 \<and> continuation b2 \<and> continuation b3
                   \<and> 65536 \<le> c \<and> c < 1114112
                then push c (utf8_dec r)
                else Inl UnicodeDecodeError)
        | _ \<Rightarrow> Inl UnicodeDecodeError)
     else Inl UnicodeDecodeError)"

definition utf8_decode :: "bytes \<Rightarrow> error + pystr" where
  "utf8_decode b = utf8_dec (map of_char b)"

text \<open>
  The UTF-8 encoding of a code point (RFC 3629), used only to say which buffers are
  well-formed UTF-8: those that are the encoding of a string of Unicode scalar values.
\<close>

definition scalar_value :: "nat \<Rightarrow> bool" where
  "scalar_value c \<longleftrightarrow> c < 1114112 \<and> \<not> (55296 \<le> c \<and> c < 57344)"

definition utf8_enc1 :: "nat \<Rightarrow> nat list" where
  "utf8_enc1 c =
    (if c < 128 then [c]
     else if c < 2048 then [192 + c div 64, 128 + c mod 64]
     else if c < 65536 then [224 + c div 4096, 128 + c div 64 mod 64, 128 + c mod 64]
     else [240 + c div 262144, 128 + c div 4096 mod 64, 128 + c div 64 mod 64, 128 + c mod 64])"

definition utf8_encode :: "pystr \<Rightarrow> bytes" where
  "utf8_encode s = map char_of (concat (map utf8_enc1 s))"

subsection \<open>\<open>str.encode('ascii')\<close>\<close>

definition ascii_encode :: "pystr \<Rightarrow> error + bytes" where
  "ascii_encode s =
    (if \<forall>c \<in> set s. c < 128 then Inr (map char_of s) else Inl UnicodeEncodeError)"

subsection \<open>\<open>str.split\<close>, \<open>str.join\<close>, negative indexing\<close>

text \<open>
  \<open>s.split(sep)\<close> for a one-character separator, as at both call sites
  (\<open>split('\n')\<close>, \<open>split('/')\<close>): the result is never empty, and an empty piece
  is kept wherever two separators meet or the string starts or ends with one.
\<close>

fun py_split :: "nat \<Rightarrow> pystr \<Rightarrow> pystr list" where
  "py_split sep [] = [[]]"
| "py_split sep (c # cs) =
    (if c = sep then [] # py_split sep cs
     else (case py_split sep cs of
             [] \<Rightarrow> [[c]]
           | piece # pieces \<Rightarrow> (c # piece) # pieces))"

fun py_join :: "pystr \<Rightarrow> pystr list \<Rightarrow> pystr" where
  "py_join sep [] = []"
| "py_join sep [x] = x"
| "py_join sep (x # y # ys) = x @ sep @ py_join sep (y # ys)"

text \<open>\<open>xs[i]\<close> with a possibly negative \<open>i\<close>: \<open>xs[-1]\<close> is the last element,
  and an index outside \<open>-len(xs) .. len(xs) - 1\<close> is an \<open>IndexError\<close>.\<close>

definition py_index :: "'a list \<Rightarrow> int \<Rightarrow> error + 'a" where
  "py_index xs i =
    (if 0 \<le> i \<and> i < int (length xs) then Inr (xs ! nat i)
     else if i < 0 \<and> - int (length xs) \<le> i then Inr (xs ! nat (int (length xs) + i))
     else Inl IndexError)"

subsection \<open>\<open>os.path\<close> (POSIX flavour)\<close>

text \<open>\<open>os.path.basename(p)\<close> is \<open>p[p.rfind('/') + 1:]\<close>: what follows the last slash.\<close>

definition basename :: "pystr \<Rightarrow> pystr" where
  "basename p = rev (takeWhile (\<lambda>c. c \<noteq> 47) (rev p))"

text \<open>\<open>os.path.join(a, b)\<close> for two components.\<close>

definition path_join :: "pystr \<Rightarrow> pystr \<Rightarrow> pystr" where
  "path_join a b =
    (if b \<noteq> [] \<and> hd b = 47 then b
     else if a = [] \<or> last a = 47 then a @ b
     else a @ [47] @ b)"

subsection \<open>\<open>str.format\<close>\<close>

text \<open>
  The positional forms the source uses on its own literals: one or two \<open>{}\<close> fields in
  a literal without any other brace.
\<close>

definition format1 :: "string \<Rightarrow> string \<Rightarrow> pystr \<Rightarrow> pystr" where
  "format1 pre post x = lit pre @ x @ lit post"

definition format2 :: "string \<Rightarrow> string \<Rightarrow> string \<Rightarrow> pystr \<Rightarrow> pystr \<Rightarrow> pystr" where
  "format2 pre mid post x y = lit pre @ x @ lit mid @ y @ lit post"

text \<open>
  \<open>template.format(**kw)\<close> on a template read from a file, with keyword arguments
  only and \<open>str\<close> values. The template is scanned from left to right: \<open>{{\<close> and
  \<open>}}\<close> stand for a brace, \<open>{name}\<close> is replaced by the value of \<open>name\<close>
  (\<open>KeyError\<close> when there is none), \<open>{}\<close> asks for a positional argument
  (\<open>IndexError\<close>, there is none), a lone brace is a \<open>ValueError\<close>. The first problem
  met ends the scan. A field with a conversion (\<open>!\<close>), a format specification (\<open>:\<close>),
  an attribute or index access (\<open>.\<close>, \<open>[\<close>), a nested brace or a numeric index is
  outside this fragment: \<open>format_fragment\<close> answers \<open>None\<close> there, and the result is
  whatever the host's general \<open>str.format\<close> gives.
\<close>

type_synonym kwargs = "(pystr \<times> pystr) list"

definition simple_field :: "pystr \<Rightarrow> bool" where
  "simple_field f \<longleftrightarrow> (\<forall>c \<in> set f. c \<notin> {123, 33, 58, 46, 91})"

definition field_end :: "pystr \<Rightarrow> (pystr \<times> pystr) option" where
  "field_end s =
    (case dropWhile (\<lambda>c. c \<noteq> 125) s of
       [] \<Rightarrow> None
     | _ # rest \<Rightarrow> Some (takeWhile (\<lambda>c. c \<noteq> 125) s, rest))"

definition prepend :: "pystr \<Rightarrow> (error + pystr) option \<Rightarrow> (error + pystr) option" where
  "prepend v r = map_option (\<lambda>x. case x of Inl e \<Rightarrow> Inl e | Inr t \<Rightarrow> Inr (v @ t)) r"

function format_fragment :: "kwargs \<Rightarrow> pystr \<Rightarrow> (error + pystr) option" where
  "format_fragment kw [] = Some (Inr [])"
| "format_fragment kw (c # s) =
    (if c = 123 then
       (case s of
          [] \<Rightarrow> Some (Inl ValueError)
        | d # s' \<Rightarrow>
            if d = 123 then prepend [123] (format_fragment kw s')
            else (case field_end s of
                    None \<Rightarrow> if simple_field s then Some (Inl ValueError) else None
                  | Some (f, rest) \<Rightarrow>
                      if \<not> simple_field f then None
                      else if f = [] then Some (Inl IndexError)
                      else if \<forall>x \<in> set f. 48 \<le> x \<and> x \<le> 57 then None
                      else (case map_of kw f of
                              None \<Rightarrow> Some (Inl (KeyError f))
                            | Some v \<Rightarrow> prepend v (format_fragment kw rest))))
     else if c = 125 then
       (case s of
          [] \<Rightarrow> Some (Inl ValueError)
        | d # s' \<Rightarrow>
            if d = 125 then prepend [125] (format_fragment kw s')
            else Some (Inl ValueError))
     else prepend [c] (format_fragment kw s))"
  by pat_completeness auto
termination
proof (relation "measure (\<lambda>(kw, s). length s)")
  fix kw :: kwargs and c :: nat and s f rest :: pystr and x
  assume "field_end s = Some x" "(f, rest) = x"
  then obtain y where "dropWhile (\<lambda>c. c \<noteq> 125) s = y # rest"
    by (auto simp: field_end_def split: list.splits)
  then have "length rest < length (dropWhile (\<lambda>c. c \<noteq> 125) s)"
    by simp
  also have "\<dots> \<le> length s"
    by (rule length_dropWhile_le)
  finally show "((kw, rest), (kw, c # s)) \<in> measure (\<lambda>(kw, s). length s)"
    by simp
qed auto

subsection \<open>Text files: newline handling of \<open>io.open\<close>\<close>

text \<open>
  Reading in text mode with the default \<open>newline=None\<close> turns every \<open>\r\n\<close> and every
  lone \<open>\r\<close> into \<open>\n\<close>.
\<close>

fun universal_newlines :: "pystr \<Rightarrow> pystr" where
  "universal_newlines [] = []"
| "universal_newlines [c] = [if c = 13 then 10 else c]"
| "universal_newlines (c # d # s) =
    (if c = 13 \<and> d = 10 then 10 # universal_newlines s
     else if c = 13 then 10 # universal_newlines (d # s)
     else c # universal_newlines (d # s))"

text \<open>
  Writing in text mode: with \<open>newline=None\<close> every \<open>\n\<close> becomes \<open>os.linesep\<close>, with
  \<open>newline=''\<close> or \<open>newline='\n'\<close> nothing is translated, with any other value every
  \<open>\n\<close> becomes that value.
\<close>

definition replace_newline :: "pystr \<Rightarrow> pystr \<Rightarrow> pystr" where
  "replace_newline t s = concat (map (\<lambda>c. if c = 10 then t else [c]) s)"

definition write_translate :: "pystr option \<Rightarrow> pystr \<Rightarrow> pystr \<Rightarrow> pystr" where
  "write_translate newline os_linesep s =
    (case newline of
       None \<Rightarrow> replace_newline os_linesep s
     | Some n \<Rightarrow> if n = [] \<or> n = [10] then s else replace_newline n s)"

section \<open>Collaborators, the host and the observable trace\<close>

text \<open>
  The helper classes (\<open>StorageHelper\<close>, \<open>ContainerRegistryHelper\<close>, the cluster helper
  behind \<open>container_service\<close>) are not part of the deployer: each is a record of what the
  deployer reads from it. Their getters return the same value on every call of a run and
  their calls return normally. The SSH login of the cluster master has the form
  \<open>user@host\<close>, an administrator name and a DNS name: it is a string of 7-bit
  characters, and \<open>ascii_str\<close> gives it as a \<open>str\<close>.
\<close>

definition ascii_str :: "String.literal \<Rightarrow> pystr" where
  "ascii_str a = lit (String.explode a)"

record storage_helper =
  account_name :: pystr
  default_share :: pystr
  key :: pystr

record registry_helper =
  name :: pystr
  default_name :: pystr
  get_docker_repo_tag :: "pystr \<Rightarrow> pystr"

record container_helper =
  master_ssh_login :: String.literal
  get_key_path :: pystr
  session_output :: "bytes \<times> bytes"

record deployer =
  docker_image :: pystr
  storage :: storage_helper
  container_registry :: registry_helper
  container_service :: container_helper

text \<open>Everything a run does to the outside world, in the order it happens. A child
  process is recorded with its arguments and the exit status it ended with.\<close>

datatype event =
    Print pystr
  | PrintExc error
  | Subprocess "pystr list" int
  | OpenRead pystr
  | OpenWrite pystr
  | FileWrite pystr bytes
  | SessionEnter
  | StdinWrite bytes
  | Communicate bytes
  | SessionExit
  | SetupImage pystr pystr
  | DeployContainer "registry_helper option"
  | DeployContainerFromRegistry pystr "registry_helper option"

text \<open>
  The host the deployer runs on: the directory of the module, the file system, the
  preferred encoding of text files, the characters beyond ASCII that the encoding of
  standard output can represent, \<open>os.linesep\<close>, \<open>str.format\<close> outside the modelled
  fragment, and the exit status of a child process given its arguments and all that
  happened before.
\<close>

record host =
  module_dir :: pystr
  read_file :: "pystr \<Rightarrow> bytes option"
  locale_decode :: "bytes \<Rightarrow> error + pystr"
  locale_encode :: "pystr \<Rightarrow> error + bytes"
  stdout_encodes :: "nat \<Rightarrow> bool"
  linesep :: pystr
  general_format :: "pystr \<Rightarrow> kwargs \<Rightarrow> error + pystr"
  exit_status :: "event list \<Rightarrow> pystr list \<Rightarrow> int"

subsection \<open>Statements: a trace, and three ways to end\<close>

datatype 'a outcome = Returned 'a | Raised error | SystemExit int

type_synonym 'a action = "event list \<Rightarrow> 'a outcome \<times> event list"

definition return :: "'a \<Rightarrow> 'a action" where
  "return x = (\<lambda>log. (Returned x, log))"

definition raise :: "error \<Rightarrow> 'a action" where
  "raise e = (\<lambda>log. (Raised e, log))"

definition sys_exit :: "int \<Rightarrow> 'a action" where
  "sys_exit n = (\<lambda>log. (SystemExit n, log))"

definition emit :: "event \<Rightarrow> unit action" where
  "emit ev = (\<lambda>log. (Returned (), log @ [ev]))"

definition lift :: "error + 'a \<Rightarrow> 'a action" where
  "lift r = (case r of Inl e \<Rightarrow> raise e | Inr x \<Rightarrow> return x)"

definition bind :: "'a action \<Rightarrow> ('a \<Rightarrow> 'b action) \<Rightarrow> 'b action" where
  "bind m f =
    (\<lambda>log. case m log of
       (Returned x, log') \<Rightarrow> f x log'
     | (Raised e, log') \<Rightarrow> (Raised e, log')
     | (SystemExit n, log') \<Rightarrow> (SystemExit n, log'))"

text \<open>A suite of statements, run in order until one does not return.\<close>

fun block :: "unit action list \<Rightarrow> unit action" where
  "block [] = return ()"
| "block (stmt # stmts) = bind stmt (\<lambda>_. block stmts)"

text \<open>\<open>try: body except ...: handler\<close>; the handler answers \<open>None\<close> for an exception
  it does not catch. \<open>SystemExit\<close> is not caught.\<close>

definition try_except :: "'a action \<Rightarrow> (error \<Rightarrow> 'a action option) \<Rightarrow> 'a action" where
  "try_except body handler =
    (\<lambda>log. case body log of
       (Raised e, log') \<Rightarrow>
         (case handler e of Some h \<Rightarrow> h log' | None \<Rightarrow> (Raised e, log'))
     | r \<Rightarrow> r)"

subsection \<open>Library calls\<close>

text \<open>
  \<open>print(*objects, sep=..., end=...)\<close> writes to standard output the text of each
  object, \<open>sep\<close> between two objects, and \<open>end\<close>, one write each. A write raises
  \<open>UnicodeEncodeError\<close> when the encoding of the stream cannot represent a character
  of its text, and then writes nothing of it; what earlier writes wrote stays written.
  Every encoding a stream can have represents the ASCII characters.
\<close>

definition stdout_accepts :: "host \<Rightarrow> pystr \<Rightarrow> bool" where
  "stdout_accepts h s \<longleftrightarrow> (\<forall>c \<in> set s. c < 128 \<or> stdout_encodes h c)"

fun interleave :: "pystr \<Rightarrow> pystr list \<Rightarrow> pystr list" where
  "interleave sep [] = []"
| "interleave sep [x] = [x]"
| "interleave sep (x # y # ys) = x # sep # interleave sep (y # ys)"

text \<open>The text the writes leave on the stream, and whether all of them succeeded.\<close>

fun written :: "host \<Rightarrow> pystr list \<Rightarrow> pystr \<times> bool" where
  "written h [] = ([], True)"
| "written h (piece # pieces) =
    (if stdout_accepts h piece
     then (case written h pieces of (text, ok) \<Rightarrow> (piece @ text, ok))
     else ([], False))"

definition py_print :: "host \<Rightarrow> pystr list \<Rightarrow> pystr \<Rightarrow> pystr \<Rightarrow> unit action" where
  "py_print h objects sep ending =
    (case written h (interleave sep objects @ [ending]) of
       (text, ok) \<Rightarrow>
         bind (if text = [] then return () else emit (Print text)) (\<lambda>_.
           if ok then return () else raise UnicodeEncodeError))"

definition print_line :: "host \<Rightarrow> pystr \<Rightarrow> unit action" where
  "print_line h x = py_print h [x] (lit '' '') (lit ''\<newline>'')"

text \<open>\<open>traceback.print_exc()\<close> writes to standard error, whose error handler
  replaces what the encoding cannot represent: it does not raise.\<close>

definition print_exc :: "error \<Rightarrow> unit action" where
  "print_exc e = emit (PrintExc e)"

text \<open>\<open>subprocess.check_output(argv)\<close>: runs the command, raises
  \<open>CalledProcessError\<close> when it exits non-zero. The output is not used by the caller.\<close>

definition check_output :: "host \<Rightarrow> pystr list \<Rightarrow> unit action" where
  "check_output h argv =
    (\<lambda>log. let rc = exit_status h log argv
           in if rc = 0 then (Returned (), log @ [Subprocess argv rc])
              else (Raised (CalledProcessError rc), log @ [Subprocess argv rc]))"

text \<open>\<open>io.open(path)\<close> for reading yields the raw content; \<open>read()\<close> decodes it with
  the preferred encoding and universal newlines.\<close>

definition open_read :: "host \<Rightarrow> pystr \<Rightarrow> bytes action" where
  "open_read h path =
    (case read_file h path of
       None \<Rightarrow> raise FileNotFoundError
     | Some raw \<Rightarrow> bind (emit (OpenRead path)) (\<lambda>_. return raw))"

definition text_read :: "host \<Rightarrow> bytes \<Rightarrow> pystr action" where
  "text_read h raw =
    (case locale_decode h raw of
       Inl e \<Rightarrow> raise e
     | Inr s \<Rightarrow> return (universal_newlines s))"

text \<open>\<open>io.open(path, 'w', newline=...)\<close> truncates the file; \<open>write(s)\<close> translates
  newlines as asked and encodes with the preferred encoding.\<close>

definition open_write :: "pystr \<Rightarrow> unit action" where
  "open_write path = emit (OpenWrite path)"

definition text_write :: "host \<Rightarrow> pystr \<Rightarrow> pystr option \<Rightarrow> pystr \<Rightarrow> unit action" where
  "text_write h path newline s =
    (case locale_encode h (write_translate newline (linesep h) s) of
       Inl e \<Rightarrow> raise e
     | Inr b \<Rightarrow> emit (FileWrite path b))"

definition py_format :: "host \<Rightarrow> pystr \<Rightarrow> kwargs \<Rightarrow> error + pystr" where
  "py_format h template kw =
    (case format_fragment kw template of
       Some r \<Rightarrow> r
     | None \<Rightarrow> general_format h template kw)"

text \<open>
  \<open>with self.container_service.cluster_ssh() as proc: body\<close>: the session is entered,
  the body runs, and the session is left however the body ended.
\<close>

definition cluster_ssh :: "'a action \<Rightarrow> 'a action" where
  "cluster_ssh body =
    (\<lambda>log. case body (log @ [SessionEnter]) of (r, log') \<Rightarrow> (r, log' @ [SessionExit]))"

definition stdin_write :: "bytes \<Rightarrow> unit action" where
  "stdin_write b = emit (StdinWrite b)"

definition communicate :: "container_helper \<Rightarrow> bytes \<Rightarrow> (bytes \<times> bytes) action" where
  "communicate cs input = bind (emit (Communicate input)) (\<lambda>_. return (session_output cs))"

definition setup_image :: "pystr \<Rightarrow> pystr \<Rightarrow> unit action" where
  "setup_image img registry_image_name = emit (SetupImage img registry_image_name)"

definition deploy_container :: "registry_helper option \<Rightarrow> unit action" where
  "deploy_container private_registry_helper = emit (DeployContainer private_registry_helper)"

definition deploy_container_from_registry :: "pystr \<Rightarrow> registry_helper option \<Rightarrow> unit action" where
  "deploy_container_from_registry img private_registry_helper =
    emit (DeployContainerFromRegistry img private_registry_helper)"

section \<open>\<open>deployers/acr_container_deployer.py\<close>\<close>

definition SCRIPTS_DIR :: "host \<Rightarrow> pystr" where
  "SCRIPTS_DIR h = path_join (module_dir h) (lit ''scripts'')"

text \<open>\<open>ACRContainerDeployer._format_proc_output\<close>, the same in both files.\<close>

definition format_proc_output :: "host \<Rightarrow> pystr \<Rightarrow> bytes \<Rightarrow> unit action" where
  "format_proc_output h header output =
    (if output \<noteq> [] then
       bind (lift (utf8_decode output)) (\<lambda>text.
         py_print h
           [header,
            py_join (lit ''\<newline>'') (map (format1 ''    '' []) (py_split 10 text))]
           (lit ''\<newline>'') (lit ''\<newline>\<newline>''))
     else return ())"

definition scp_to_cluster_master :: "deployer \<Rightarrow> host \<Rightarrow> pystr \<Rightarrow> pystr \<Rightarrow> unit action" where
  "scp_to_cluster_master self h local_path remote_path =
    (let address = ascii_str (master_ssh_login (container_service self)) in
     try_except
       (check_output h
          [lit ''scp'', local_path, format2 [] '':./'' [] address remote_path])
       (\<lambda>e. case e of
          CalledProcessError rc \<Rightarrow>
            Some (block [
              print_exc e,
              print_line h (lit ''It looks like an scp command failed.''),
              print_line h (lit ''Make sure you can ssh into the server without prompts.''),
              print_line h (lit ''Please run the following command to try it:''),
              print_line h (format1 ''ssh '' [] address),
              sys_exit 1])
        | _ \<Rightarrow> None))"

definition mount_shares :: "deployer \<Rightarrow> host \<Rightarrow> unit action" where
  "mount_shares self h =
    block [
      print_line h (lit ''Mounting file share on all machines in cluster...''),
      (let key_file = basename (get_key_path (container_service self)) in
       block [
         bind (open_read h (path_join (SCRIPTS_DIR h) (lit ''cifsMountTemplate.sh'')))
           (\<lambda>cifsMount_template.
         bind (open_write (path_join (SCRIPTS_DIR h) (lit ''cifsMount.sh''))) (\<lambda>_.
         bind (text_read h cifsMount_template) (\<lambda>template.
         bind (lift (py_format h template
                 [(lit ''storageacct'', account_name (storage self)),
                  (lit ''sharename'', default_share (storage self)),
                  (lit ''username'', name (container_registry self)),
                  (lit ''password'', key (storage self))])) (\<lambda>rendered.
           text_write h (path_join (SCRIPTS_DIR h) (lit ''cifsMount.sh''))
             (Some (lit ''\<newline>'')) rendered)))),
         scp_to_cluster_master self h (path_join (SCRIPTS_DIR h) (lit ''cifsMount.sh'')) [],
         scp_to_cluster_master self h (path_join (SCRIPTS_DIR h) (lit ''mountShares.sh'')) [],
         scp_to_cluster_master self h (get_key_path (container_service self)) key_file,
         bind
           (cluster_ssh
             (bind (bind (lift (ascii_encode (format1 ''chmod 600 '' ''\<newline>'' key_file)))
                      stdin_write) (\<lambda>_.
              bind (stdin_write ''eval ssh-agent -s\<newline>'') (\<lambda>_.
              bind (bind (lift (ascii_encode (format1 ''ssh-add '' ''\<newline>'' key_file)))
                      stdin_write) (\<lambda>_.
              (let mountShares_cmd = format1 ''sh mountShares.sh ~/'' ''\<newline>'' key_file in
               bind (py_print h
                       [lit ''Running mountShares on remote master. Cmd:'', mountShares_cmd]
                       (lit ''\<newline>'') (lit ''\<newline>'')) (\<lambda>_.
               bind (bind (lift (ascii_encode mountShares_cmd)) stdin_write) (\<lambda>_.
               communicate (container_service self) ''exit\<newline>''))))))))
           (\<lambda>(out, err).
              block [
                print_line h (lit ''Finished mounting shares.''),
                format_proc_output h (lit ''Stdout:'') out,
                format_proc_output h (lit ''Stderr:'') err])])]"

definition deploy :: "deployer \<Rightarrow> host \<Rightarrow> unit action" where
  "deploy self h =
    bind (lift (py_index (py_split 47 (docker_image self)) (- 1))) (\<lambda>registry_image_name.
      block [
        setup_image (docker_image self) registry_image_name,
        mount_shares self h,
        deploy_container (Some (container_registry self))])"

section \<open>\<open>example.py\<close>\<close>

text \<open>\<open>ContainerDeployer.deploy\<close>, the plain deployer without a registry.\<close>

definition container_deployer_deploy :: "deployer \<Rightarrow> unit action" where
  "container_deployer_deploy self = deploy_container_from_registry (docker_image self) None"

definition scp_to_container_master :: "deployer \<Rightarrow> host \<Rightarrow> pystr \<Rightarrow> pystr \<Rightarrow> unit action" where
  "scp_to_container_master self h local_path remote_path =
    (let address = ascii_str (master_ssh_login (container_service self)) in
     try_except
       (check_output h
          [lit ''scp'', local_path, format2 [] '':./'' [] address remote_path])
       (\<lambda>e. case e of
          CalledProcessError rc \<Rightarrow>
            Some (block [
              print_exc e,
              print_line h (lit ''It looks like an scp command failed.''),
              print_line h (lit ''Make sure you can ssh into the server without prompts.''),
              print_line h (lit ''Please run the following command to try it:''),
              print_line h (format1 ''ssh '' [] address),
              sys_exit 1])
        | _ \<Rightarrow> None))"

definition example_mount_shares :: "deployer \<Rightarrow> host \<Rightarrow> unit action" where
  "example_mount_shares self h =
    block [
      print_line h (lit ''Mounting file share on all machines in cluster...''),
      (let key_file = basename (get_key_path (container_service self)) in
       block [
         bind (open_read h (lit ''cifsMountTemplate.sh'')) (\<lambda>cifsMount_template.
         bind (open_write (lit ''cifsMount.sh'')) (\<lambda>_.
         bind (text_read h cifsMount_template) (\<lambda>template.
         bind (lift (py_format h template
                 [(lit ''storageacct'', account_name (storage self)),
                  (lit ''sharename'', default_share (storage self)),
                  (lit ''username'', default_name (container_registry self)),
                  (lit ''password'', key (storage self))])) (\<lambda>rendered.
           text_write h (lit ''cifsMount.sh'') (Some (lit ''\<newline>'')) rendered)))),
         scp_to_container_master self h (lit ''cifsMount.sh'') [],
         scp_to_container_master self h (lit ''mountShares.sh'') [],
         scp_to_container_master self h (get_key_path (container_service self)) key_file,
         bind
           (cluster_ssh
             (bind (bind (lift (ascii_encode (format1 ''chmod 600 '' ''\<newline>'' key_file)))
                      stdin_write) (\<lambda>_.
              bind (stdin_write ''eval ssh-agent -s\<newline>'') (\<lambda>_.
              bind (bind (lift (ascii_encode (format1 ''ssh-add '' ''\<newline>'' key_file)))
                      stdin_write) (\<lambda>_.
              (let mountShares_cmd = format1 ''sh mountShares.sh ~/'' ''\<newline>'' key_file in
               bind (py_print h
                       [lit ''Running mountShares on remote master. Cmd:'', mountShares_cmd]
                       (lit ''\<newline>'') (lit ''\<newline>'')) (\<lambda>_.
               bind (bind (lift (ascii_encode mountShares_cmd)) stdin_write) (\<lambda>_.
               communicate (container_service self) ''exit\<newline>''))))))))
           (\<lambda>(out, err).
              block [
                format_proc_output h (lit ''Stdout:'') out,
                format_proc_output h (lit ''Stderr:'') err])])]"

definition example_deploy :: "deployer \<Rightarrow> host \<Rightarrow> unit action" where
  "example_deploy self h =
    bind (lift (py_index (py_split 47 (docker_image self)) (- 1))) (\<lambda>registry_image_name.
      block [
        setup_image (docker_image self) registry_image_name,
        example_mount_shares self h,
        deploy_container_from_registry
          (get_docker_repo_tag (container_registry self) registry_image_name)
          (Some (container_registry self))])"

section \<open>Reading a run\<close>

text \<open>
  The definitions of this section are not part of the program. They name kinds of
  events, the blocks that \<open>mount_shares\<close> is made of, the event sequences those blocks
  are expected to leave in the trace, and two sample installations to run the program on.
\<close>

fun is_transfer :: "event \<Rightarrow> bool" where
  "is_transfer (Subprocess _ _) = True"
| "is_transfer _ = False"

fun is_session_event :: "event \<Rightarrow> bool" where
  "is_session_event SessionEnter = True"
| "is_session_event (StdinWrite _) = True"
| "is_session_event (Communicate _) = True"
| "is_session_event SessionExit = True"
| "is_session_event _ = False"

fun is_stdin_write :: "event \<Rightarrow> bool" where
  "is_stdin_write (StdinWrite _) = True"
| "is_stdin_write _ = False"

fun is_file_write :: "event \<Rightarrow> bool" where
  "is_file_write (FileWrite _ _) = True"
| "is_file_write _ = False"

fun is_launch :: "event \<Rightarrow> bool" where
  "is_launch (DeployContainer _) = True"
| "is_launch (DeployContainerFromRegistry _ _) = True"
| "is_launch _ = False"

text \<open>The image reference and the registry passed by a launch invocation, if any.\<close>

fun launch_image :: "event \<Rightarrow> pystr option" where
  "launch_image (DeployContainerFromRegistry img _) = Some img"
| "launch_image _ = None"

fun launch_registry :: "event \<Rightarrow> registry_helper option" where
  "launch_registry (DeployContainerFromRegistry _ reg) = reg"
| "launch_registry (DeployContainer reg) = reg"
| "launch_registry _ = None"

subsection \<open>Kinds of events\<close>

fun is_file_event :: "event \<Rightarrow> bool" where
  "is_file_event (OpenRead _) = True"
| "is_file_event (OpenWrite _) = True"
| "is_file_event (FileWrite _ _) = True"
| "is_file_event _ = False"

fun is_print :: "event \<Rightarrow> bool" where
  "is_print (Print _) = True"
| "is_print _ = False"

subsection \<open>The blocks of \<open>mount_shares\<close>\<close>

text \<open>
  The \<open>with\<close> statement that renders the template, the body of the session, and the
  frame both variants of \<open>mount_shares\<close> share; \<open>mount_shares_skeleton\<close> and
  \<open>example_mount_shares_skeleton\<close> below show that the two functions are instances
  of the frame.
\<close>

definition render_with :: "host \<Rightarrow> pystr \<Rightarrow> pystr \<Rightarrow> kwargs \<Rightarrow> unit action" where
  "render_with h template_path script_path kw =
     bind (open_read h template_path) (\<lambda>cifsMount_template.
     bind (open_write script_path) (\<lambda>_.
     bind (text_read h cifsMount_template) (\<lambda>template.
     bind (lift (py_format h template kw)) (\<lambda>rendered.
       text_write h script_path (Some (lit ''\<newline>'')) rendered))))"

definition session_body ::
  "host \<Rightarrow> container_helper \<Rightarrow> pystr \<Rightarrow> (bytes \<times> bytes) action" where
  "session_body h cs key_file =
     bind (bind (lift (ascii_encode (format1 ''chmod 600 '' ''\<newline>'' key_file)))
              stdin_write) (\<lambda>_.
     bind (stdin_write ''eval ssh-agent -s\<newline>'') (\<lambda>_.
     bind (bind (lift (ascii_encode (format1 ''ssh-add '' ''\<newline>'' key_file)))
              stdin_write) (\<lambda>_.
     (let mountShares_cmd = format1 ''sh mountShares.sh ~/'' ''\<newline>'' key_file in
      bind (py_print h
              [lit ''Running mountShares on remote master. Cmd:'', mountShares_cmd]
              (lit ''\<newline>'') (lit ''\<newline>'')) (\<lambda>_.
      bind (bind (lift (ascii_encode mountShares_cmd)) stdin_write) (\<lambda>_.
      communicate cs ''exit\<newline>''))))))"

definition mount_skeleton ::
  "deployer \<Rightarrow> host \<Rightarrow> unit action \<Rightarrow> pystr \<Rightarrow> pystr \<Rightarrow> (bytes \<times> bytes \<Rightarrow> unit action) \<Rightarrow> unit action" where
  "mount_skeleton self h render script helper report =
     block [
       print_line h (lit ''Mounting file share on all machines in cluster...''),
       block [
         render,
         scp_to_cluster_master self h script [],
         scp_to_cluster_master self h helper [],
         scp_to_cluster_master self h (get_key_path (container_service self))
           (basename (get_key_path (container_service self))),
         bind (cluster_ssh (session_body h (container_service self)
                 (basename (get_key_path (container_service self))))) report]]"

subsection \<open>Expected event sequences\<close>

definition ascii :: "pystr \<Rightarrow> bool" where
  "ascii s \<longleftrightarrow> (\<forall>c \<in> set s. c < 128)"

definition transfer_argv :: "deployer \<Rightarrow> pystr \<Rightarrow> pystr \<Rightarrow> pystr list" where
  "transfer_argv self local_path remote_path =
     [lit ''scp'', local_path,
      ascii_str (master_ssh_login (container_service self)) @ lit '':./'' @ remote_path]"

definition remediation :: "deployer \<Rightarrow> int \<Rightarrow> event list" where
  "remediation self rc =
     [PrintExc (CalledProcessError rc),
      Print (lit ''It looks like an scp command failed.\<newline>''),
      Print (lit ''Make sure you can ssh into the server without prompts.\<newline>''),
      Print (lit ''Please run the following command to try it:\<newline>''),
      Print (lit ''ssh '' @ ascii_str (master_ssh_login (container_service self))
               @ lit ''\<newline>'')]"

definition session_events :: "pystr \<Rightarrow> event list" where
  "session_events k =
     [SessionEnter,
      StdinWrite (''chmod 600 '' @ map char_of k @ ''\<newline>''),
      StdinWrite ''eval ssh-agent -s\<newline>'',
      StdinWrite (''ssh-add '' @ map char_of k @ ''\<newline>''),
      Print (lit ''Running mountShares on remote master. Cmd:\<newline>sh mountShares.sh ~/''
               @ k @ lit ''\<newline>\<newline>''),
      StdinWrite (''sh mountShares.sh ~/'' @ map char_of k @ ''\<newline>''),
      Communicate ''exit\<newline>'',
      SessionExit]"

text \<open>A block is quiet for a kind of events when it only appends events of that kind
  to the trace and never ends the process.\<close>

definition quiet :: "(event \<Rightarrow> bool) \<Rightarrow> 'a action \<Rightarrow> bool" where
  "quiet P m \<longleftrightarrow>
     (\<forall>log. \<exists>r tr. m log = (r, log @ tr) \<and> (\<forall>e \<in> set tr. P e) \<and> (\<forall>n. r \<noteq> SystemExit n))"

text \<open>
  The traces a deployment can leave after its first two events (registry staging and the
  opening message), with the way it ended: the rendering failed, one of the three copies
  failed, the key name could not be encoded, the report failed, or the container was
  launched.
\<close>

inductive run_shape :: "deployer \<Rightarrow> pystr \<Rightarrow> pystr \<Rightarrow> event \<Rightarrow> unit outcome \<Rightarrow> event list \<Rightarrow> bool"
  for self :: deployer and script helper :: pystr and launch :: event where
  render_failed:
    "\<forall>ev \<in> set R. is_file_event ev \<Longrightarrow> run_shape self script helper launch (Raised e) R"
| first_failed:
    "\<forall>ev \<in> set R. is_file_event ev \<Longrightarrow> rc \<noteq> 0 \<Longrightarrow>
     run_shape self script helper launch (SystemExit 1)
       (R @ Subprocess (transfer_argv self script []) rc # remediation self rc)"
| second_failed:
    "\<forall>ev \<in> set R. is_file_event ev \<Longrightarrow> rc \<noteq> 0 \<Longrightarrow>
     run_shape self script helper launch (SystemExit 1)
       (R @ Subprocess (transfer_argv self script []) 0
          # Subprocess (transfer_argv self helper []) rc # remediation self rc)"
| third_failed:
    "\<forall>ev \<in> set R. is_file_event ev \<Longrightarrow> rc \<noteq> 0 \<Longrightarrow>
     run_shape self script helper launch (SystemExit 1)
       (R @ Subprocess (transfer_argv self script []) 0
          # Subprocess (transfer_argv self helper []) 0
          # Subprocess (transfer_argv self (get_key_path (container_service self))
                         (basename (get_key_path (container_service self)))) rc
          # remediation self rc)"
| encode_failed:
    "\<forall>ev \<in> set R. is_file_event ev \<Longrightarrow>
     \<not> ascii (basename (get_key_path (container_service self))) \<Longrightarrow>
     run_shape self script helper launch (Raised UnicodeEncodeError)
       (R @ [Subprocess (transfer_argv self script []) 0,
             Subprocess (transfer_argv self helper []) 0,
             Subprocess (transfer_argv self (get_key_path (container_service self))
                           (basename (get_key_path (container_service self)))) 0,
             SessionEnter, SessionExit])"
| report_failed:
    "\<forall>ev \<in> set R. is_file_event ev \<Longrightarrow>
     ascii (basename (get_key_path (container_service self))) \<Longrightarrow>
     \<forall>ev \<in> set T. is_print ev \<Longrightarrow>
     run_shape self script helper launch (Raised e)
       (R @ Subprocess (transfer_argv self script []) 0
          # Subprocess (transfer_argv self helper []) 0
          # Subprocess (transfer_argv self (get_key_path (container_service self))
                         (basename (get_key_path (container_service self)))) 0
          # session_events (basename (get_key_path (container_service self))) @ T)"
| launched:
    "\<forall>ev \<in> set R. is_file_event ev \<Longrightarrow>
     ascii (basename (get_key_path (container_service self))) \<Longrightarrow>
     \<forall>ev \<in> set T. is_print ev \<Longrightarrow>
     run_shape self script helper launch (Returned ())
       (R @ Subprocess (transfer_argv self script []) 0
          # Subprocess (transfer_argv self helper []) 0
          # Subprocess (transfer_argv self (get_key_path (container_service self))
                         (basename (get_key_path (container_service self)))) 0
          # session_events (basename (get_key_path (container_service self))) @ T @ [launch])"

subsection \<open>Sample installations\<close>

definition sample_deployer :: deployer where
  "sample_deployer =
    \<lparr>docker_image = lit ''mesosphere/simple-docker'',
     storage = \<lparr>account_name = lit ''acct1'', default_share = lit ''share1'', key = lit ''pw1''\<rparr>,
     container_registry =
       \<lparr>name = lit ''user1'', default_name = lit ''user1'',
        get_docker_repo_tag = (\<lambda>n. lit ''user1.azurecr.io/'' @ n)\<rparr>,
     container_service =
       \<lparr>master_ssh_login = STR ''azureuser@master.example.com'',
        get_key_path = lit ''/home/op/.ssh/id_rsa'',
        session_output = (''ok'', [])\<rparr>\<rparr>"

definition sample_host :: host where
  "sample_host =
    \<lparr>module_dir = lit ''/opt/deployers'',
     read_file = (\<lambda>p. if p = lit ''/opt/deployers/scripts/cifsMountTemplate.sh''
                         \<or> p = lit ''cifsMountTemplate.sh''
                      then Some ''{storageacct} {sharename} {username} {password}\<newline>''
                      else None),
     locale_decode = utf8_decode,
     locale_encode = (\<lambda>s. Inr (utf8_encode s)),
     stdout_encodes = scalar_value,
     linesep = [13, 10],
     general_format = (\<lambda>template kw. Inl ValueError),
     exit_status = (\<lambda>log argv. 0)\<rparr>"

text \<open>A host on which every copy command fails, one without the template file, and one
  whose standard output is ASCII.\<close>

definition failing_host :: host where
  "failing_host = sample_host\<lparr>exit_status := (\<lambda>log argv. 255)\<rparr>"

definition bare_host :: host where
  "bare_host = sample_host\<lparr>read_file := (\<lambda>p. None)\<rparr>"

definition ascii_stdout_host :: host where
  "ascii_stdout_host = sample_host\<lparr>stdout_encodes := (\<lambda>c. False)\<rparr>"

text \<open>An installation whose private key file has a name that ends with an accented
  letter, U+00E9.\<close>

definition accented_key_deployer :: deployer where
  "accented_key_deployer =
    sample_deployer\<lparr>container_service :=
      (container_service sample_deployer)\<lparr>get_key_path := lit ''/home/op/.ssh/cl'' @ [233]\<rparr>\<rparr>"

section \<open>Properties of the library functions and of the blocks\<close>

subsection \<open>Splitting and joining\<close>

lemma py_split_not_Nil: "py_split sep s \<noteq> []"
  by (induction s) (auto split: list.splits)

lemma py_join_py_split: "py_join [sep] (py_split sep s) = s"
proof (induction s)
  case Nil
  then show ?case by simp
next
  case (Cons c cs)
  show ?case
  proof (cases "py_split sep cs")
    case Nil
    then show ?thesis using py_split_not_Nil by blast
  next
    case (Cons piece pieces)
    with Cons.IH show ?thesis
      by (cases pieces) auto
  qed
qed

lemma py_split_pieces: "piece \<in> set (py_split sep s) \<Longrightarrow> sep \<notin> set piece"
  by (induction s arbitrary: piece) (auto split: if_splits list.splits)

lemma length_py_split: "length (py_split sep s) = Suc (count_list s sep)"
  by (induction s) (auto split: list.splits simp: py_split_not_Nil)

lemma py_split_append: "py_split sep (pre @ sep # seg) = py_split sep pre @ py_split sep seg"
  by (induction pre) (auto split: list.splits simp: py_split_not_Nil)

lemma py_split_no_sep: "sep \<notin> set s \<Longrightarrow> py_split sep s = [s]"
  by (induction s) auto

lemma py_index_last: "xs \<noteq> [] \<Longrightarrow> py_index xs (- 1) = Inr (last xs)"
proof -
  assume "xs \<noteq> []"
  then have "0 < length xs" by simp
  then have "nat (int (length xs) + - 1) = length xs - 1" by linarith
  with \<open>xs \<noteq> []\<close> \<open>0 < length xs\<close> show ?thesis
    by (simp add: py_index_def last_conv_nth Suc_le_eq)
qed

lemma last_segment: "py_index (py_split sep s) (- 1) = Inr (last (py_split sep s))"
  by (simp add: py_index_last py_split_not_Nil)

lemma py_join_terminated:
  "xs \<noteq> [] \<Longrightarrow> py_join [sep] xs @ [sep] = concat (map (\<lambda>x. x @ [sep]) xs)"
  by (induction "[sep]" xs rule: py_join.induct) simp_all

subsection \<open>UTF-8: decoding an encoding gives the string back\<close>

lemma utf8_enc1_bytes: "scalar_value c \<Longrightarrow> b \<in> set (utf8_enc1 c) \<Longrightarrow> b < 256"
proof -
  assume a: "scalar_value c" "b \<in> set (utf8_enc1 c)"
  have m: "c mod 64 < 64" "c div 64 mod 64 < 64" "c div 4096 mod 64 < 64" by simp_all
  consider "c < 128" | "128 \<le> c" "c < 2048" | "2048 \<le> c" "c < 65536" | "65536 \<le> c" 
    by linarith
  then show ?thesis
  proof cases
    case 1 with a show ?thesis by (simp add: utf8_enc1_def)
  next
    case 2
    then have "c div 64 < 32" by simp
    with 2 a m show ?thesis by (auto simp add: utf8_enc1_def)
  next
    case 3
    then have "c div 4096 < 16" by simp
    with 3 a m show ?thesis by (auto simp add: utf8_enc1_def)
  next
    case 4
    with a have "c div 262144 < 8" by (simp add: scalar_value_def)
    with 4 a m show ?thesis by (auto simp add: utf8_enc1_def)
  qed
qed

lemma dec2:
  assumes "192 \<le> b0" "b0 < 224" "continuation b1" "128 \<le> (b0 - 192) * 64 + (b1 - 128)"
  shows "utf8_dec (b0 # b1 # bs) = push ((b0 - 192) * 64 + (b1 - 128)) (utf8_dec bs)"
  using assms by (simp add: Let_def)

lemma dec3:
  assumes "224 \<le> b0" "b0 < 240" "continuation b1" "continuation b2"
    "2048 \<le> (b0 - 224) * 4096 + (b1 - 128) * 64 + (b2 - 128)"
    "\<not> (55296 \<le> (b0 - 224) * 4096 + (b1 - 128) * 64 + (b2 - 128)
        \<and> (b0 - 224) * 4096 + (b1 - 128) * 64 + (b2 - 128) < 57344)"
  shows "utf8_dec (b0 # b1 # b2 # bs) =
         push ((b0 - 224) * 4096 + (b1 - 128) * 64 + (b2 - 128)) (utf8_dec bs)"
  using assms by (simp add: Let_def)

lemma dec4:
  assumes "240 \<le> b0" "b0 < 248" "continuation b1" "continuation b2" "continuation b3"
    "65536 \<le> (b0 - 240) * 262144 + (b1 - 128) * 4096 + (b2 - 128) * 64 + (b3 - 128)"
    "(b0 - 240) * 262144 + (b1 - 128) * 4096 + (b2 - 128) * 64 + (b3 - 128) < 1114112"
  shows "utf8_dec (b0 # b1 # b2 # b3 # bs) =
         push ((b0 - 240) * 262144 + (b1 - 128) * 4096 + (b2 - 128) * 64 + (b3 - 128)) (utf8_dec bs)"
  using assms by (simp add: Let_def)

lemma radix64: "d div 64 * (64 * k) + d mod 64 * k = d * (k::nat)"
proof -
  have "d div 64 * (64 * k) + d mod 64 * k = (d div 64 * 64 + d mod 64) * k"
    by (simp only: add_mult_distrib mult.assoc)
  then show ?thesis by (simp only: div_mult_mod_eq)
qed

lemma split3: "c div 4096 * 4096 + c div 64 mod 64 * 64 + c mod 64 = (c::nat)"
proof -
  have "c div 4096 = c div 64 div 64" by (simp add: div_mult2_eq)
  moreover have "c div 64 div 64 * (64 * 64) + c div 64 mod 64 * 64 = c div 64 * 64"
    by (rule radix64)
  ultimately show ?thesis by simp
qed

lemma split4:
  "c div 262144 * 262144 + c div 4096 mod 64 * 4096 + c div 64 mod 64 * 64 + c mod 64 = (c::nat)"
proof -
  have "c div 262144 = c div 4096 div 64" by (simp add: div_mult2_eq)
  moreover have "c div 4096 div 64 * (64 * 4096) + c div 4096 mod 64 * 4096 = c div 4096 * 4096"
    by (rule radix64)
  ultimately show ?thesis using split3 [of c] by simp
qed

lemma push_Inr: "push c r = Inr s \<longleftrightarrow> (\<exists>t. r = Inr t \<and> s = c # t)"
  by (cases r) (auto simp: push_def)

lemma utf8_dec_enc1:
  assumes "scalar_value c"
  shows "utf8_dec (utf8_enc1 c @ bs) = push c (utf8_dec bs)"
proof -
  have m: "c mod 64 < 64" "c div 64 mod 64 < 64" "c div 4096 mod 64 < 64" by simp_all
  consider "c < 128" | "128 \<le> c" "c < 2048" | "2048 \<le> c" "c < 65536" | "65536 \<le> c" 
    by linarith
  then show ?thesis
  proof cases
    case 1
    then show ?thesis by (simp add: utf8_enc1_def)
  next
    case 2
    then have enc: "utf8_enc1 c = [192 + c div 64, 128 + c mod 64]"
      by (simp add: utf8_enc1_def)
    have val: "(192 + c div 64 - 192) * 64 + (128 + c mod 64 - 128) = c"
      by simp
    have "c div 64 < 32" using 2 by simp
    then have "utf8_dec ((192 + c div 64) # (128 + c mod 64) # bs)
          = push ((192 + c div 64 - 192) * 64 + (128 + c mod 64 - 128)) (utf8_dec bs)"
      using 2 m by (intro dec2) (simp_all add: continuation_def)
    then show ?thesis by (simp only: enc val append.simps)
  next
    case 3
    then have enc: "utf8_enc1 c = [224 + c div 4096, 128 + c div 64 mod 64, 128 + c mod 64]"
      by (simp add: utf8_enc1_def)
    have val: "(224 + c div 4096 - 224) * 4096 + (128 + c div 64 mod 64 - 128) * 64
               + (128 + c mod 64 - 128) = c"
      using split3 [of c] by simp
    have "c div 4096 < 16" using 3 by simp
    then have "utf8_dec ((224 + c div 4096) # (128 + c div 64 mod 64) # (128 + c mod 64) # bs)
          = push ((224 + c div 4096 - 224) * 4096 + (128 + c div 64 mod 64 - 128) * 64
               + (128 + c mod 64 - 128)) (utf8_dec bs)"
      using 3 m assms by (intro dec3) (simp_all only: val, simp_all add: continuation_def scalar_value_def)
    then show ?thesis by (simp only: enc val append.simps)
  next
    case 4
    then have enc: "utf8_enc1 c =
        [240 + c div 262144, 128 + c div 4096 mod 64, 128 + c div 64 mod 64, 128 + c mod 64]"
      by (simp add: utf8_enc1_def)
    have val: "(240 + c div 262144 - 240) * 262144 + (128 + c div 4096 mod 64 - 128) * 4096
               + (128 + c div 64 mod 64 - 128) * 64 + (128 + c mod 64 - 128) = c"
      using split4 [of c] by simp
    have "c div 262144 < 8" using assms 4 by (simp add: scalar_value_def)
    then have "utf8_dec ((240 + c div 262144) # (128 + c div 4096 mod 64)
                  # (128 + c div 64 mod 64) # (128 + c mod 64) # bs)
          = push ((240 + c div 262144 - 240) * 262144 + (128 + c div 4096 mod 64 - 128) * 4096
               + (128 + c div 64 mod 64 - 128) * 64 + (128 + c mod 64 - 128)) (utf8_dec bs)"
      using 4 m assms by (intro dec4) (simp_all only: val, simp_all add: continuation_def scalar_value_def)
    then show ?thesis by (simp only: enc val append.simps)
  qed
qed

lemma utf8_dec_concat_enc:
  "\<forall>c \<in> set s. scalar_value c \<Longrightarrow> utf8_dec (concat (map utf8_enc1 s)) = Inr s"
  by (induction s) (simp_all add: utf8_dec_enc1 push_def)

lemma of_char_char_of_bytes:
  "\<forall>b \<in> set bs. b < 256 \<Longrightarrow> map of_char (map char_of bs) = (bs :: nat list)"
  by (induction bs) simp_all

lemma utf8_roundtrip:
  assumes "\<forall>c \<in> set s. scalar_value c"
  shows "utf8_decode (utf8_encode s) = Inr s"
proof -
  have bytes: "\<forall>b \<in> set (concat (map utf8_enc1 s)). b < 256"
    using assms utf8_enc1_bytes by auto
  have "utf8_decode (utf8_encode s) = utf8_dec (map of_char (map char_of (concat (map utf8_enc1 s))))"
    by (simp only: utf8_decode_def utf8_encode_def)
  also have "\<dots> = utf8_dec (concat (map utf8_enc1 s))"
    by (simp only: of_char_char_of_bytes [OF bytes])
  also have "\<dots> = Inr s"
    by (rule utf8_dec_concat_enc [OF assms])
  finally show ?thesis .
qed

subsection \<open>UTF-8: what decodes is an encoding\<close>

lemma digits64: "z < 64 \<Longrightarrow> (a * 64 + z) div 64 = (a::nat)" "z < 64 \<Longrightarrow> (a * 64 + z) mod 64 = z"
  by simp_all

lemma enc2:
  assumes "x < 32" "z < 64" "128 \<le> x * 64 + z"
  shows "utf8_enc1 (x * 64 + z) = [192 + x, 128 + z]" "scalar_value (x * 64 + z)"
proof -
  have "x * 64 + z < 2048" using assms by simp
  then show "utf8_enc1 (x * 64 + z) = [192 + x, 128 + z]" "scalar_value (x * 64 + z)"
    using assms by (simp_all add: utf8_enc1_def scalar_value_def)
qed

lemma enc3:
  assumes "x < 16" "y < 64" "z < 64" "2048 \<le> x * 4096 + y * 64 + z"
    "\<not> (55296 \<le> x * 4096 + y * 64 + z \<and> x * 4096 + y * 64 + z < 57344)"
  shows "utf8_enc1 (x * 4096 + y * 64 + z) = [224 + x, 128 + y, 128 + z]"
    "scalar_value (x * 4096 + y * 64 + z)"
proof -
  let ?c = "x * 4096 + y * 64 + z"
  have c: "?c = (x * 64 + y) * 64 + z" by simp
  have lt: "?c < 65536" using assms by simp
  have d1: "?c div 64 = x * 64 + y" "?c mod 64 = z"
    using assms by (simp_all only: c digits64)
  have d2: "?c div 4096 = x"
  proof -
    have "?c div 4096 = ?c div 64 div 64" by (simp add: div_mult2_eq)
    also have "\<dots> = x" using assms by (simp only: d1 digits64)
    finally show ?thesis .
  qed
  have d3: "(x * 64 + y) mod 64 = y" using assms by (simp only: digits64)
  have "utf8_enc1 ?c = [224 + ?c div 4096, 128 + ?c div 64 mod 64, 128 + ?c mod 64]"
    using assms(4) lt by (simp add: utf8_enc1_def)
  then show "utf8_enc1 ?c = [224 + x, 128 + y, 128 + z]"
    by (simp only: d1 d2 d3)
  show "scalar_value ?c" using assms(5) lt by (simp add: scalar_value_def)
qed

lemma enc4:
  assumes "x < 8" "w < 64" "y < 64" "z < 64"
    "65536 \<le> x * 262144 + w * 4096 + y * 64 + z" "x * 262144 + w * 4096 + y * 64 + z < 1114112"
  shows "utf8_enc1 (x * 262144 + w * 4096 + y * 64 + z) = [240 + x, 128 + w, 128 + y, 128 + z]"
    "scalar_value (x * 262144 + w * 4096 + y * 64 + z)"
proof -
  let ?c = "x * 262144 + w * 4096 + y * 64 + z"
  have c: "?c = ((x * 64 + w) * 64 + y) * 64 + z" by simp
  have d1: "?c div 64 = (x * 64 + w) * 64 + y" "?c mod 64 = z"
    using assms by (simp_all only: c digits64)
  have d2: "?c div 4096 = x * 64 + w"
  proof -
    have "?c div 4096 = ?c div 64 div 64" by (simp add: div_mult2_eq)
    also have "\<dots> = x * 64 + w" using assms by (simp only: d1 digits64)
    finally show ?thesis .
  qed
  have d3: "((x * 64 + w) * 64 + y) mod 64 = y" using assms by (simp only: digits64)
  have d4: "(x * 64 + w) mod 64 = w" using assms by (simp only: digits64)
  have d5: "?c div 262144 = x"
  proof -
    have "?c div 262144 = ?c div 4096 div 64" by (simp add: div_mult2_eq)
    also have "\<dots> = x" using assms by (simp only: d2 digits64)
    finally show ?thesis .
  qed
  have "utf8_enc1 ?c =
      [240 + ?c div 262144, 128 + ?c div 4096 mod 64, 128 + ?c div 64 mod 64, 128 + ?c mod 64]"
    using assms(5) by (simp add: utf8_enc1_def)
  then show "utf8_enc1 ?c = [240 + x, 128 + w, 128 + y, 128 + z]"
    by (simp only: d1 d2 d3 d4 d5)
  show "scalar_value ?c" using assms(5,6) by (simp add: scalar_value_def)
qed

lemma utf8_dec_Cons_Inr:
  assumes "utf8_dec (b0 # bs) = Inr s"
  shows "\<exists>c t r. s = c # t \<and> scalar_value c \<and> b0 # bs = utf8_enc1 c @ r \<and> utf8_dec r = Inr t"
proof -
  consider (one) "b0 < 128" | (two) "192 \<le> b0" "b0 < 224" | (three) "224 \<le> b0" "b0 < 240"
    | (four) "240 \<le> b0" "b0 < 248" | (bad) "128 \<le> b0 \<and> b0 < 192 \<or> 248 \<le> b0"
    by linarith
  then show ?thesis
  proof cases
    case one
    with assms obtain t where "utf8_dec bs = Inr t" "s = b0 # t"
      by (auto simp: push_Inr)
    moreover have "utf8_enc1 b0 = [b0]" "scalar_value b0"
      using one by (simp_all add: utf8_enc1_def scalar_value_def)
    ultimately show ?thesis by auto
  next
    case two
    with assms obtain b1 r where bs: "bs = b1 # r"
      by (cases bs) auto
    define x z where "x = b0 - 192" and "z = b1 - 128"
    from assms two bs have ok: "continuation b1" "128 \<le> x * 64 + z"
      and p: "push (x * 64 + z) (utf8_dec r) = Inr s"
      by (auto simp: Let_def x_def z_def split: if_splits)
    have b: "b0 = 192 + x" "b1 = 128 + z" "x < 32" "z < 64"
      using two ok(1) by (auto simp: x_def z_def continuation_def)
    from p obtain t where "utf8_dec r = Inr t" "s = (x * 64 + z) # t"
      by (auto simp: push_Inr)
    moreover have "utf8_enc1 (x * 64 + z) = [b0, b1]" "scalar_value (x * 64 + z)"
      using enc2 [OF b(3,4) ok(2)] b(1,2) by simp_all
    ultimately show ?thesis using bs by auto
  next
    case three
    with assms obtain b1 b2 r where bs: "bs = b1 # b2 # r"
      by (cases bs; cases "tl bs") auto
    define x y z where "x = b0 - 224" and "y = b1 - 128" and "z = b2 - 128"
    from assms three bs have ok: "continuation b1" "continuation b2" "2048 \<le> x * 4096 + y * 64 + z"
        "\<not> (55296 \<le> x * 4096 + y * 64 + z \<and> x * 4096 + y * 64 + z < 57344)"
      and p: "push (x * 4096 + y * 64 + z) (utf8_dec r) = Inr s"
      by (auto simp: Let_def x_def y_def z_def split: if_splits)
    have b: "b0 = 224 + x" "b1 = 128 + y" "b2 = 128 + z" "x < 16" "y < 64" "z < 64"
      using three ok(1,2) by (auto simp: x_def y_def z_def continuation_def)
    from p obtain t where "utf8_dec r = Inr t" "s = (x * 4096 + y * 64 + z) # t"
      by (auto simp: push_Inr)
    moreover have "utf8_enc1 (x * 4096 + y * 64 + z) = [b0, b1, b2]"
        "scalar_value (x * 4096 + y * 64 + z)"
      using enc3 [OF b(4,5,6) ok(3,4)] b(1,2,3) by simp_all
    ultimately show ?thesis using bs by auto
  next
    case four
    with assms obtain b1 b2 b3 r where bs: "bs = b1 # b2 # b3 # r"
      by (cases bs; cases "tl bs"; cases "tl (tl bs)") auto
    define x w y z where "x = b0 - 240" and "w = b1 - 128" and "y = b2 - 128" and "z = b3 - 128"
    from assms four bs have ok: "continuation b1" "continuation b2" "continuation b3"
        "65536 \<le> x * 262144 + w * 4096 + y * 64 + z"
        "x * 262144 + w * 4096 + y * 64 + z < 1114112"
      and p: "push (x * 262144 + w * 4096 + y * 64 + z) (utf8_dec r) = Inr s"
      by (auto simp: Let_def x_def w_def y_def z_def split: if_splits)
    have b: "b0 = 240 + x" "b1 = 128 + w" "b2 = 128 + y" "b3 = 128 + z"
        "x < 8" "w < 64" "y < 64" "z < 64"
      using four ok(1,2,3) by (auto simp: x_def w_def y_def z_def continuation_def)
    from p obtain t where "utf8_dec r = Inr t" "s = (x * 262144 + w * 4096 + y * 64 + z) # t"
      by (auto simp: push_Inr)
    moreover have "utf8_enc1 (x * 262144 + w * 4096 + y * 64 + z) = [b0, b1, b2, b3]"
        "scalar_value (x * 262144 + w * 4096 + y * 64 + z)"
      using enc4 [OF b(5,6,7,8) ok(4,5)] b(1,2,3,4) by simp_all
    ultimately show ?thesis using bs by auto
  next
    case bad
    with assms show ?thesis by auto
  qed
qed

lemma utf8_dec_sound:
  "utf8_dec bs = Inr s \<Longrightarrow> concat (map utf8_enc1 s) = bs \<and> (\<forall>c \<in> set s. scalar_value c)"
proof (induction "length bs" arbitrary: bs s rule: less_induct)
  case less
  show ?case
  proof (cases bs)
    case Nil
    with less.prems show ?thesis by simp
  next
    case (Cons b0 bs')
    with less.prems obtain c t r where
      *: "s = c # t" "scalar_value c" "b0 # bs' = utf8_enc1 c @ r" "utf8_dec r = Inr t"
      using utf8_dec_Cons_Inr by blast
    have "0 < length (utf8_enc1 c)" by (simp add: utf8_enc1_def)
    moreover have "length bs = length (utf8_enc1 c) + length r"
      by (simp only: Cons *(3) length_append)
    ultimately have "length r < length bs" by linarith
    from less.hyps [OF this *(4)] have "concat (map utf8_enc1 t) = r" "\<forall>c \<in> set t. scalar_value c"
      by simp_all
    then show ?thesis
      using * Cons by simp
  qed
qed

lemma utf8_dec_error: "utf8_dec bs = Inl e \<Longrightarrow> e = UnicodeDecodeError"
proof (induction "length bs" arbitrary: bs rule: less_induct)
  case less
  show ?case
  proof (cases bs)
    case Nil
    with less.prems show ?thesis by simp
  next
    case (Cons b0 bs')
    have rec: "utf8_dec r = Inl e \<Longrightarrow> length r < length bs \<Longrightarrow> e = UnicodeDecodeError" for r
      using less.hyps by blast
    from less.prems show ?thesis
      unfolding Cons utf8_dec.simps
      by (auto simp: push_def Let_def Cons split: if_splits list.splits sum.splits dest!: rec)
  qed
qed

subsection \<open>The two variants of \<open>mount_shares\<close>\<close>

lemma scp_to_container_master_eq: "scp_to_container_master = scp_to_cluster_master"
  by (intro ext) (simp add: scp_to_container_master_def scp_to_cluster_master_def)

lemma mount_shares_skeleton:
  "mount_shares self h =
     mount_skeleton self h
       (render_with h (path_join (SCRIPTS_DIR h) (lit ''cifsMountTemplate.sh''))
          (path_join (SCRIPTS_DIR h) (lit ''cifsMount.sh''))
          [(lit ''storageacct'', account_name (storage self)),
           (lit ''sharename'', default_share (storage self)),
           (lit ''username'', name (container_registry self)),
           (lit ''password'', key (storage self))])
       (path_join (SCRIPTS_DIR h) (lit ''cifsMount.sh''))
       (path_join (SCRIPTS_DIR h) (lit ''mountShares.sh''))
       (\<lambda>(out, err).
          block [
            print_line h (lit ''Finished mounting shares.''),
            format_proc_output h (lit ''Stdout:'') out,
            format_proc_output h (lit ''Stderr:'') err])"
  by (simp only: mount_shares_def mount_skeleton_def render_with_def session_body_def Let_def)

lemma example_mount_shares_skeleton:
  "example_mount_shares self h =
     mount_skeleton self h
       (render_with h (lit ''cifsMountTemplate.sh'') (lit ''cifsMount.sh'')
          [(lit ''storageacct'', account_name (storage self)),
           (lit ''sharename'', default_share (storage self)),
           (lit ''username'', default_name (container_registry self)),
           (lit ''password'', key (storage self))])
       (lit ''cifsMount.sh'')
       (lit ''mountShares.sh'')
       (\<lambda>(out, err).
          block [
            format_proc_output h (lit ''Stdout:'') out,
            format_proc_output h (lit ''Stderr:'') err])"
  by (simp only: example_mount_shares_def mount_skeleton_def render_with_def session_body_def
      Let_def scp_to_container_master_eq)

subsection \<open>Running the blocks\<close>

lemma lit_append: "lit a @ lit b = lit (a @ b)" "lit a @ lit b @ s = lit (a @ b) @ s"
  by (simp_all add: lit_def)

lemma ascii_ascii_str: "ascii (ascii_str a)"
proof -
  have "(of_char c :: nat) < 128" if "\<not> digit7 c" for c
    using that by (cases c) (simp add: of_bool_def)
  with String.explode [of a] show ?thesis
    unfolding ascii_def ascii_str_def lit_def by auto
qed

lemma ascii_accepted: "ascii s \<Longrightarrow> stdout_accepts h s"
  by (simp add: ascii_def stdout_accepts_def)

lemma accepts_append: "stdout_accepts h (s @ t) \<longleftrightarrow> stdout_accepts h s \<and> stdout_accepts h t"
  by (auto simp: stdout_accepts_def)

lemma accepts_login: "stdout_accepts h (ascii_str a)"
  by (simp add: ascii_accepted ascii_ascii_str)

lemma accepts_lit: "\<forall>c \<in> set s. (of_char c :: nat) < 128 \<Longrightarrow> stdout_accepts h (lit s)"
  by (simp add: stdout_accepts_def lit_def)

lemma accepts_newline: "stdout_accepts h [10]" "stdout_accepts h [10, 10]" "stdout_accepts h []"
  by (simp_all add: stdout_accepts_def)

lemma accepts_join:
  "stdout_accepts h (py_join sep xs) \<longleftrightarrow>
     (\<forall>x \<in> set xs. stdout_accepts h x) \<and> (2 \<le> length xs \<longrightarrow> stdout_accepts h sep)"
  by (induction sep xs rule: py_join.induct) (auto simp: accepts_append accepts_newline)

lemma accepts_indented:
  "stdout_accepts h (py_join [10] (map ((@) (lit ''    '')) (py_split 10 t))) = stdout_accepts h t"
proof -
  have "stdout_accepts h (py_join [10] (map ((@) (lit ''    '')) (py_split 10 t)))
        \<longleftrightarrow> (\<forall>x \<in> set (py_split 10 t). stdout_accepts h x)"
    by (simp add: accepts_join accepts_append accepts_lit accepts_newline)
  also have "\<dots> \<longleftrightarrow> stdout_accepts h (py_join [10] (py_split 10 t))"
    by (simp add: accepts_join accepts_newline)
  finally show ?thesis
    by (simp add: py_join_py_split)
qed

lemma print_line_run:
  "print_line h x log =
     (if stdout_accepts h x then (Returned (), log @ [Print (x @ lit ''\<newline>'')])
      else (Raised UnicodeEncodeError, log))"
  by (simp add: print_line_def py_print_def emit_def return_def raise_def bind_def
      accepts_newline lit_def)

lemma print_pair_run:
  assumes "stdout_accepts h ending"
  shows "py_print h [x, y] [10] ending log =
     (if \<not> stdout_accepts h x then (Raised UnicodeEncodeError, log)
      else if \<not> stdout_accepts h y then (Raised UnicodeEncodeError, log @ [Print (x @ [10])])
      else (Returned (), log @ [Print (x @ [10] @ y @ ending)]))"
  using assms
  by (simp add: py_print_def emit_def return_def raise_def bind_def accepts_newline)

lemma bind_run:
  "bind m f log =
     (case m log of
        (Returned x, l) \<Rightarrow> f x l
      | (Raised e, l) \<Rightarrow> (Raised e, l)
      | (SystemExit n, l) \<Rightarrow> (SystemExit n, l))"
  by (simp add: bind_def)

lemma block_Nil_run: "block [] log = (Returned (), log)"
  by (simp add: return_def)

lemma block_Cons_run:
  "block (stmt # stmts) log =
     (case stmt log of
        (Returned x, l) \<Rightarrow> block stmts l
      | (Raised e, l) \<Rightarrow> (Raised e, l)
      | (SystemExit n, l) \<Rightarrow> (SystemExit n, l))"
  by (simp add: bind_def)

lemma scp_run:
  "scp_to_cluster_master self h p q log =
     (if exit_status h log (transfer_argv self p q) = 0
      then (Returned (), log @ [Subprocess (transfer_argv self p q) 0])
      else (SystemExit 1,
            log @ Subprocess (transfer_argv self p q) (exit_status h log (transfer_argv self p q))
                  # remediation self (exit_status h log (transfer_argv self p q))))"
proof -
  have ok: "stdout_accepts h (lit ''It looks like an scp command failed.'')"
    "stdout_accepts h (lit ''Make sure you can ssh into the server without prompts.'')"
    "stdout_accepts h (lit ''Please run the following command to try it:'')"
    "stdout_accepts h (format1 ''ssh '' [] (ascii_str (master_ssh_login (container_service self))))"
    by (simp_all add: format1_def accepts_append accepts_lit accepts_login)
  have f: "format1 ''ssh '' [] x @ lit ''\<newline>'' = lit ''ssh '' @ x @ lit ''\<newline>''"
    "format2 [] '':./'' [] x y = x @ lit '':./'' @ y" for x y
    by (simp_all add: format1_def format2_def lit_def)
  show ?thesis
    by (simp add: scp_to_cluster_master_def try_except_def check_output_def Let_def
        transfer_argv_def remediation_def bind_run return_def print_line_run ok f
        print_exc_def emit_def sys_exit_def lit_append)
qed

lemma ascii_encode_literal:
  "ascii_encode (lit pre @ k @ lit post) =
     (if (\<forall>c \<in> set pre. (of_char c :: nat) < 128) \<and> ascii k \<and> (\<forall>c \<in> set post. (of_char c :: nat) < 128)
      then Inr (pre @ map char_of k @ post) else Inl UnicodeEncodeError)"
  by (auto simp: ascii_encode_def ascii_def lit_def comp_def)

lemma encode_commands:
  "ascii_encode (format1 ''chmod 600 '' ''\<newline>'' k) =
     (if ascii k then Inr (''chmod 600 '' @ map char_of k @ ''\<newline>'') else Inl UnicodeEncodeError)"
  "ascii_encode (format1 ''ssh-add '' ''\<newline>'' k) =
     (if ascii k then Inr (''ssh-add '' @ map char_of k @ ''\<newline>'') else Inl UnicodeEncodeError)"
  "ascii_encode (format1 ''sh mountShares.sh ~/'' ''\<newline>'' k) =
     (if ascii k then Inr (''sh mountShares.sh ~/'' @ map char_of k @ ''\<newline>'')
      else Inl UnicodeEncodeError)"
  by (simp_all add: format1_def ascii_encode_literal)

lemma session_run:
  "cluster_ssh (session_body h cs k) log =
     (if ascii k then (Returned (session_output cs), log @ session_events k)
      else (Raised UnicodeEncodeError, log @ [SessionEnter, SessionExit]))"
proof (cases "ascii k")
  case True
  have ok: "stdout_accepts h (lit ''Running mountShares on remote master. Cmd:'')"
    "stdout_accepts h (format1 ''sh mountShares.sh ~/'' ''\<newline>'' k)"
    "stdout_accepts h (lit ''\<newline>'')"
    using True by (simp_all add: format1_def accepts_append accepts_lit ascii_accepted)
  have nl: "lit ''\<newline>'' = [10]"
    by (simp add: lit_def)
  have announce: "py_print h [lit ''Running mountShares on remote master. Cmd:'',
                      format1 ''sh mountShares.sh ~/'' ''\<newline>'' k] (lit ''\<newline>'') (lit ''\<newline>'') l
      = (Returned (), l @ [Print (lit ''Running mountShares on remote master. Cmd:\<newline>sh mountShares.sh ~/''
               @ k @ lit ''\<newline>\<newline>'')])" for l
    using print_pair_run [of h "[10]" "lit ''Running mountShares on remote master. Cmd:''"
        "format1 ''sh mountShares.sh ~/'' ''\<newline>'' k" l] ok
    by (simp add: nl) (simp add: format1_def lit_def)
  from True have "session_body h cs k (log @ [SessionEnter]) =
      (Returned (session_output cs), log @ butlast (session_events k))"
    by (simp add: session_body_def bind_run lift_def encode_commands stdin_write_def
        emit_def return_def announce communicate_def session_events_def Let_def)
  then show ?thesis
    using True by (simp add: cluster_ssh_def session_events_def)
next
  case False
  then have "session_body h cs k (log @ [SessionEnter]) = (Raised UnicodeEncodeError, log @ [SessionEnter])"
    by (simp add: session_body_def bind_run lift_def encode_commands raise_def)
  then show ?thesis
    using False by (simp add: cluster_ssh_def)
qed

subsection \<open>Quiet blocks\<close>

lemma quiet_render: "quiet is_file_event (render_with h pin pout kw)"
  unfolding quiet_def render_with_def
  by (auto simp: bind_run open_read_def open_write_def text_read_def text_write_def lift_def
      emit_def return_def raise_def split: option.splits sum.splits)

lemma format_proc_output_run:
  "format_proc_output h header b log =
     (if b = [] then (Returned (), log)
      else case utf8_decode b of
             Inl e \<Rightarrow> (Raised e, log)
           | Inr t \<Rightarrow>
               if \<not> stdout_accepts h header then (Raised UnicodeEncodeError, log)
               else if \<not> stdout_accepts h t
                 then (Raised UnicodeEncodeError, log @ [Print (header @ [10])])
               else (Returned (),
                     log @ [Print (header @ [10] @
                              py_join [10] (map ((@) (lit ''    '')) (py_split 10 t)) @ [10, 10])]))"
proof -
  have f: "format1 ''    '' [] = (@) (lit ''    '')"
    by (intro ext) (simp add: format1_def lit_def)
  have nl: "lit ''\<newline>'' = [10]" "lit ''\<newline>\<newline>'' = [10, 10]"
    by (simp_all add: lit_def)
  show ?thesis
    by (simp add: format_proc_output_def bind_run lift_def return_def raise_def f nl
        print_pair_run accepts_newline accepts_indented split: sum.splits)
qed

lemma quiet_format_proc_output: "quiet is_print (format_proc_output h header b)"
  unfolding quiet_def
  by (auto simp: format_proc_output_run split: sum.splits)

lemma quiet_return: "quiet P (return x)"
  by (simp add: quiet_def return_def)

lemma quiet_print_line: "quiet is_print (print_line h x)"
  by (simp add: quiet_def print_line_run)

lemma quiet_bind:
  assumes "quiet P m" "\<And>x. quiet P (f x)"
  shows "quiet P (bind m f)"
  unfolding quiet_def
proof
  fix log
  from assms(1) obtain r tr where m: "m log = (r, log @ tr)" "\<forall>e \<in> set tr. P e" "\<forall>n. r \<noteq> SystemExit n"
    unfolding quiet_def by blast
  show "\<exists>r tr. bind m f log = (r, log @ tr) \<and> (\<forall>e \<in> set tr. P e) \<and> (\<forall>n. r \<noteq> SystemExit n)"
  proof (cases r)
    case (Returned x)
    from assms(2) [of x] obtain r' tr' where
      f: "f x (log @ tr) = (r', (log @ tr) @ tr')" "\<forall>e \<in> set tr'. P e" "\<forall>n. r' \<noteq> SystemExit n"
      unfolding quiet_def by blast
    have "bind m f log = (r', log @ (tr @ tr'))"
      using m(1) f(1) Returned by (simp add: bind_run)
    then show ?thesis using m(2) f(2,3) by (metis Un_iff set_append)
  next
    case (Raised e)
    then have "bind m f log = (Raised e, log @ tr)"
      using m(1) by (simp add: bind_run)
    then show ?thesis using m(2) by blast
  next
    case (SystemExit n)
    with m(3) show ?thesis by simp
  qed
qed

lemma quiet_block: "(\<And>s. s \<in> set stmts \<Longrightarrow> quiet P s) \<Longrightarrow> quiet P (block stmts)"
  by (induction stmts) (simp_all add: quiet_return quiet_bind)

lemma quiet_report:
  "quiet is_print (case x of (out, err) \<Rightarrow>
      block [print_line h (lit ''Finished mounting shares.''),
             format_proc_output h (lit ''Stdout:'') out,
             format_proc_output h (lit ''Stderr:'') err])"
  by (cases x) (auto intro!: quiet_bind quiet_return quiet_print_line quiet_format_proc_output)

lemma quiet_example_report:
  "quiet is_print (case x of (out, err) \<Rightarrow>
      block [format_proc_output h (lit ''Stdout:'') out,
             format_proc_output h (lit ''Stderr:'') err])"
  by (cases x) (auto intro!: quiet_bind quiet_return quiet_format_proc_output)

subsection \<open>The shape of every run\<close>

lemma skeleton_shape:
  assumes run: "block [setup_image img n,
                       mount_skeleton self h render script helper report,
                       emit launch] log = (r, tr)"
    and render: "quiet is_file_event render"
    and report: "\<And>x. quiet is_print (report x)"
  shows "\<exists>body. tr = log @ SetupImage img n
               # Print (lit ''Mounting file share on all machines in cluster...\<newline>'') # body
             \<and> run_shape self script helper launch r body"
proof -
  let ?S = "SetupImage img n"
  let ?M = "Print (lit ''Mounting file share on all machines in cluster...\<newline>'')"
  let ?k = "basename (get_key_path (container_service self))"
  let ?a1 = "transfer_argv self script []"
  let ?a2 = "transfer_argv self helper []"
  let ?a3 = "transfer_argv self (get_key_path (container_service self)) ?k"
  have first_line: "print_line h (lit ''Mounting file share on all machines in cluster...'') l
      = (Returned (), l @ [?M])" for l
    by (simp add: print_line_run accepts_lit lit_append)
  note defs = mount_skeleton_def block_Cons_run block_Nil_run setup_image_def emit_def
    first_line bind_run scp_run session_run lit_append return_def
  from render [unfolded quiet_def] obtain r0 R where
    R0: "render (log @ [?S, ?M]) = (r0, (log @ [?S, ?M]) @ R)"
      and R23: "\<forall>ev \<in> set R. is_file_event ev" "\<forall>n. r0 \<noteq> SystemExit n"
    by blast
  from R0 have R1: "render (log @ [?S, ?M]) = (r0, log @ ?S # ?M # R)"
    by simp
  note R = R1 R23
  show ?thesis
  proof (cases r0)
    case (SystemExit n)
    with R(3) show ?thesis by simp
  next
    case (Raised e)
    with run R(1) have "r = Raised e" "tr = log @ ?S # ?M # R"
      by (simp_all add: defs)
    with R(2) show ?thesis
      by (auto intro: run_shape.render_failed)
  next
    case Returned
    show ?thesis
    proof (cases "exit_status h (log @ ?S # ?M # R) ?a1 = 0")
      case False
      with run R(1) Returned have "r = SystemExit 1"
        "tr = log @ ?S # ?M # R @ Subprocess ?a1 (exit_status h (log @ ?S # ?M # R) ?a1)
              # remediation self (exit_status h (log @ ?S # ?M # R) ?a1)"
        by (simp_all add: defs)
      with R(2) False show ?thesis
        by (auto intro: run_shape.first_failed)
    next
      case e1: True
      show ?thesis
      proof (cases "exit_status h (log @ ?S # ?M # R @ [Subprocess ?a1 0]) ?a2 = 0")
        case False
        with run R(1) Returned e1 have "r = SystemExit 1"
          "tr = log @ ?S # ?M # R @ Subprocess ?a1 0
                # Subprocess ?a2 (exit_status h (log @ ?S # ?M # R @ [Subprocess ?a1 0]) ?a2)
                # remediation self (exit_status h (log @ ?S # ?M # R @ [Subprocess ?a1 0]) ?a2)"
          by (simp_all add: defs)
        with R(2) False show ?thesis
          by (auto intro: run_shape.second_failed)
      next
        case e2: True
        show ?thesis
        proof (cases "exit_status h
                        (log @ ?S # ?M # R @ [Subprocess ?a1 0, Subprocess ?a2 0]) ?a3 = 0")
          case False
          with run R(1) Returned e1 e2 have "r = SystemExit 1"
            "tr = log @ ?S # ?M # R @ Subprocess ?a1 0 # Subprocess ?a2 0
                  # Subprocess ?a3 (exit_status h
                        (log @ ?S # ?M # R @ [Subprocess ?a1 0, Subprocess ?a2 0]) ?a3)
                  # remediation self (exit_status h
                        (log @ ?S # ?M # R @ [Subprocess ?a1 0, Subprocess ?a2 0]) ?a3)"
            by (simp_all add: defs)
          with R(2) False show ?thesis
            by (auto intro: run_shape.third_failed)
        next
          case e3: True
          show ?thesis
          proof (cases "ascii ?k")
            case False
            with run R(1) Returned e1 e2 e3 have "r = Raised UnicodeEncodeError"
              "tr = log @ ?S # ?M # R @ [Subprocess ?a1 0, Subprocess ?a2 0, Subprocess ?a3 0,
                                          SessionEnter, SessionExit]"
              by (simp_all add: defs)
            with R(2) False show ?thesis
              by (auto intro: run_shape.encode_failed)
          next
            case k: True
            let ?L = "log @ ?S # ?M # R @ Subprocess ?a1 0 # Subprocess ?a2 0 # Subprocess ?a3 0
                        # session_events ?k"
            from report [of "session_output (container_service self)", unfolded quiet_def]
            obtain r5 T where
              T: "report (session_output (container_service self)) ?L = (r5, ?L @ T)"
                "\<forall>ev \<in> set T. is_print ev" "\<forall>n. r5 \<noteq> SystemExit n"
              by blast
            show ?thesis
            proof (cases r5)
              case (SystemExit n)
              with T(3) show ?thesis by simp
            next
              case (Raised e)
              with run R(1) Returned e1 e2 e3 k T(1) have "r = Raised e"
                "tr = log @ ?S # ?M # R @ Subprocess ?a1 0 # Subprocess ?a2 0 # Subprocess ?a3 0
                        # session_events ?k @ T"
                by (simp_all add: defs)
              with R(2) T(2) k show ?thesis
                by (auto intro: run_shape.report_failed)
            next
              case r5: Returned
              with run R(1) Returned e1 e2 e3 k T(1) have "r = Returned ()"
                "tr = log @ ?S # ?M # R @ Subprocess ?a1 0 # Subprocess ?a2 0 # Subprocess ?a3 0
                        # session_events ?k @ T @ [launch]"
                by (simp_all add: defs)
              with R(2) T(2) k show ?thesis
                by (auto intro: run_shape.launched)
            qed
          qed
        qed
      qed
    qed
  qed
qed

lemma deploy_shape:
  assumes "deploy self h log = (r, tr)"
  shows "\<exists>body. tr = log @ SetupImage (docker_image self) (last (py_split 47 (docker_image self)))
               # Print (lit ''Mounting file share on all machines in cluster...\<newline>'') # body
             \<and> run_shape self (path_join (SCRIPTS_DIR h) (lit ''cifsMount.sh''))
                  (path_join (SCRIPTS_DIR h) (lit ''mountShares.sh''))
                  (DeployContainer (Some (container_registry self))) r body"
proof (rule skeleton_shape)
  show "block [setup_image (docker_image self) (last (py_split 47 (docker_image self))),
          mount_skeleton self h
            (render_with h (path_join (SCRIPTS_DIR h) (lit ''cifsMountTemplate.sh''))
               (path_join (SCRIPTS_DIR h) (lit ''cifsMount.sh''))
               [(lit ''storageacct'', account_name (storage self)),
                (lit ''sharename'', default_share (storage self)),
                (lit ''username'', name (container_registry self)),
                (lit ''password'', key (storage self))])
            (path_join (SCRIPTS_DIR h) (lit ''cifsMount.sh''))
            (path_join (SCRIPTS_DIR h) (lit ''mountShares.sh''))
            (\<lambda>(out, err).
               block [
                 print_line h (lit ''Finished mounting shares.''),
                 format_proc_output h (lit ''Stdout:'') out,
                 format_proc_output h (lit ''Stderr:'') err]),
          emit (DeployContainer (Some (container_registry self)))] log = (r, tr)"
    using assms
    by (simp only: deploy_def last_segment lift_def sum.case bind_run return_def prod.case
        outcome.case mount_shares_skeleton deploy_container_def)
  show "quiet is_file_event (render_with h pin pout kw)" for pin pout kw
    by (rule quiet_render)
  show "quiet is_print (case x of (out, err) \<Rightarrow>
      block [print_line h (lit ''Finished mounting shares.''),
             format_proc_output h (lit ''Stdout:'') out,
             format_proc_output h (lit ''Stderr:'') err])" for x
    by (rule quiet_report)
qed

lemma example_deploy_shape:
  assumes "example_deploy self h log = (r, tr)"
  shows "\<exists>body. tr = log @ SetupImage (docker_image self) (last (py_split 47 (docker_image self)))
               # Print (lit ''Mounting file share on all machines in cluster...\<newline>'') # body
             \<and> run_shape self (lit ''cifsMount.sh'') (lit ''mountShares.sh'')
                  (DeployContainerFromRegistry
                     (get_docker_repo_tag (container_registry self)
                        (last (py_split 47 (docker_image self))))
                     (Some (container_registry self))) r body"
proof (rule skeleton_shape)
  show "block [setup_image (docker_image self) (last (py_split 47 (docker_image self))),
          mount_skeleton self h
            (render_with h (lit ''cifsMountTemplate.sh'') (lit ''cifsMount.sh'')
               [(lit ''storageacct'', account_name (storage self)),
                (lit ''sharename'', default_share (storage self)),
                (lit ''username'', default_name (container_registry self)),
                (lit ''password'', key (storage self))])
            (lit ''cifsMount.sh'')
            (lit ''mountShares.sh'')
            (\<lambda>(out, err).
               block [
                 format_proc_output h (lit ''Stdout:'') out,
                 format_proc_output h (lit ''Stderr:'') err]),
          emit (DeployContainerFromRegistry
                     (get_docker_repo_tag (container_registry self)
                        (last (py_split 47 (docker_image self))))
                     (Some (container_registry self)))] log = (r, tr)"
    using assms
    by (simp only: example_deploy_def last_segment lift_def sum.case bind_run return_def prod.case
        outcome.case example_mount_shares_skeleton deploy_container_from_registry_def)
  show "quiet is_file_event (render_with h pin pout kw)" for pin pout kw
    by (rule quiet_render)
  show "quiet is_print (case x of (out, err) \<Rightarrow>
      block [format_proc_output h (lit ''Stdout:'') out,
             format_proc_output h (lit ''Stderr:'') err])" for x
    by (rule quiet_example_report)
qed

subsection \<open>Well-formed buffers\<close>

lemma utf8_encode_Nil_iff: "utf8_encode s = [] \<longleftrightarrow> s = []"
proof (cases s)
  case Nil
  then show ?thesis by (simp add: utf8_encode_def)
next
  case (Cons c t)
  have "utf8_enc1 c \<noteq> []" by (simp add: utf8_enc1_def)
  with Cons show ?thesis by (simp add: utf8_encode_def)
qed

lemma utf8_decode_error: "utf8_decode b = Inl e \<Longrightarrow> e = UnicodeDecodeError"
  unfolding utf8_decode_def by (rule utf8_dec_error)

lemma utf8_decode_sound:
  assumes "utf8_decode b = Inr s"
  shows "b = utf8_encode s \<and> (\<forall>c \<in> set s. scalar_value c)"
proof -
  from assms have "concat (map utf8_enc1 s) = map of_char b" "\<forall>c \<in> set s. scalar_value c"
    using utf8_dec_sound unfolding utf8_decode_def by blast+
  moreover have "map char_of (map (of_char :: char \<Rightarrow> nat) b) = b"
    by (induction b) simp_all
  ultimately show ?thesis by (simp add: utf8_encode_def)
qed

subsection \<open>A failed copy in a run\<close>

lemma files_no_transfer: "\<forall>ev \<in> set R. is_file_event ev \<Longrightarrow> Subprocess argv rc \<notin> set R"
  by auto

lemma files_no_session: "\<forall>ev \<in> set R. is_file_event ev \<Longrightarrow> SessionEnter \<notin> set R"
  by auto

lemma prints_no_transfer: "\<forall>ev \<in> set T. is_print ev \<Longrightarrow> Subprocess argv rc \<notin> set T"
  by auto

lemma run_shape_failed_transfer:
  assumes "run_shape self script helper launch r body"
    and "Subprocess argv rc \<in> set body" and "rc \<noteq> 0" and "\<not> is_transfer launch"
  shows "r = SystemExit 1 \<and> SessionEnter \<notin> set body
         \<and> (\<exists>pre. body = pre @ Subprocess argv rc # remediation self rc)
         \<and> (\<exists>p q. argv = transfer_argv self p q)"
  using assms(1)
proof cases
  case render_failed
  with assms(2) files_no_transfer show ?thesis by blast
next
  case (first_failed R rc')
  then have files: "\<forall>ev \<in> set R. is_file_event ev" by simp
  from first_failed assms(2,3) files_no_transfer [OF files]
  have "argv = transfer_argv self script [] \<and> rc = rc'"
    by (auto simp: remediation_def)
  with first_failed files_no_session [OF files] show ?thesis
    by (auto simp: remediation_def)
next
  case (second_failed R rc')
  then have files: "\<forall>ev \<in> set R. is_file_event ev" by simp
  from second_failed assms(2,3) files_no_transfer [OF files]
  have "argv = transfer_argv self helper [] \<and> rc = rc'"
    by (auto simp: remediation_def)
  moreover have "body = (R @ [Subprocess (transfer_argv self script []) 0])
                   @ Subprocess (transfer_argv self helper []) rc' # remediation self rc'"
    using second_failed by simp
  ultimately show ?thesis
    using second_failed files_no_session [OF files]
    by (auto simp: remediation_def)
next
  case (third_failed R rc')
  then have files: "\<forall>ev \<in> set R. is_file_event ev" by simp
  let ?a3 = "transfer_argv self (get_key_path (container_service self))
               (basename (get_key_path (container_service self)))"
  from third_failed assms(2,3) files_no_transfer [OF files]
  have "argv = ?a3 \<and> rc = rc'"
    by (auto simp: remediation_def)
  moreover have "body = (R @ [Subprocess (transfer_argv self script []) 0,
                              Subprocess (transfer_argv self helper []) 0])
                   @ Subprocess ?a3 rc' # remediation self rc'"
    using third_failed by simp
  ultimately show ?thesis
    using third_failed files_no_session [OF files]
    by (auto simp: remediation_def)
next
  case (encode_failed R)
  then have files: "\<forall>ev \<in> set R. is_file_event ev" by simp
  from encode_failed assms(2,3) files_no_transfer [OF files] show ?thesis
    by auto
next
  case (report_failed R T e)
  then have files: "\<forall>ev \<in> set R. is_file_event ev" and prints: "\<forall>ev \<in> set T. is_print ev"
    by simp_all
  from report_failed assms(2,3) files_no_transfer [OF files] prints_no_transfer [OF prints]
  show ?thesis
    by (auto simp: session_events_def)
next
  case (launched R T)
  then have files: "\<forall>ev \<in> set R. is_file_event ev" and prints: "\<forall>ev \<in> set T. is_print ev"
    by simp_all
  from launched assms(2,3,4) files_no_transfer [OF files] prints_no_transfer [OF prints]
  show ?thesis
    by (auto simp: session_events_def)
qed

subsection \<open>The sample runs\<close>

lemmas run_defs =
  deploy_def example_deploy_def mount_shares_def example_mount_shares_def
  scp_to_cluster_master_def scp_to_container_master_def format_proc_output_def
  bind_def return_def raise_def sys_exit_def emit_def lift_def try_except_def
  py_print_def print_line_def print_exc_def stdout_accepts_def check_output_def open_read_def text_read_def
  open_write_def text_write_def py_format_def cluster_ssh_def stdin_write_def
  communicate_def setup_image_def deploy_container_def deploy_container_from_registry_def
  SCRIPTS_DIR_def path_join_def basename_def format1_def format2_def py_index_def
  field_end_def prepend_def simple_field_def write_translate_def ascii_encode_def
  utf8_decode_def push_def utf8_encode_def utf8_enc1_def Let_def

lemma sample_login:
  "String.explode (STR ''azureuser@master.example.com'') = ''azureuser@master.example.com''"
  by code_simp

lemma sample_values:
  "docker_image sample_deployer = lit ''mesosphere/simple-docker''"
  "account_name (storage sample_deployer) = lit ''acct1''"
  "default_share (storage sample_deployer) = lit ''share1''"
  "key (storage sample_deployer) = lit ''pw1''"
  "name (container_registry sample_deployer) = lit ''user1''"
  "default_name (container_registry sample_deployer) = lit ''user1''"
  "get_docker_repo_tag (container_registry sample_deployer) n = lit ''user1.azurecr.io/'' @ n"
  "ascii_str (master_ssh_login (container_service sample_deployer))
     = lit ''azureuser@master.example.com''"
  "get_key_path (container_service sample_deployer) = lit ''/home/op/.ssh/id_rsa''"
  "session_output (container_service sample_deployer) = (''ok'', [])"
  by (simp_all add: sample_deployer_def ascii_str_def sample_login)

lemma failing_deploy:
  "deploy sample_deployer failing_host [] =
     (SystemExit 1,
      [SetupImage (lit ''mesosphere/simple-docker'') (lit ''simple-docker''),
       Print (lit ''Mounting file share on all machines in cluster...\<newline>''),
       OpenRead (lit ''/opt/deployers/scripts/cifsMountTemplate.sh''),
       OpenWrite (lit ''/opt/deployers/scripts/cifsMount.sh''),
       FileWrite (lit ''/opt/deployers/scripts/cifsMount.sh'')
         (utf8_encode (lit ''acct1 share1 user1 pw1\<newline>'')),
       Subprocess [lit ''scp'', lit ''/opt/deployers/scripts/cifsMount.sh'',
                   lit ''azureuser@master.example.com:./''] 255,
       PrintExc (CalledProcessError 255),
       Print (lit ''It looks like an scp command failed.\<newline>''),
       Print (lit ''Make sure you can ssh into the server without prompts.\<newline>''),
       Print (lit ''Please run the following command to try it:\<newline>''),
       Print (lit ''ssh azureuser@master.example.com\<newline>'')])"
  by (simp add: run_defs sample_values failing_host_def sample_host_def lit_def)

lemma sample_deploy:
  "deploy sample_deployer sample_host [] =
     (Returned (),
      [SetupImage (lit ''mesosphere/simple-docker'') (lit ''simple-docker''),
       Print (lit ''Mounting file share on all machines in cluster...\<newline>''),
       OpenRead (lit ''/opt/deployers/scripts/cifsMountTemplate.sh''),
       OpenWrite (lit ''/opt/deployers/scripts/cifsMount.sh''),
       FileWrite (lit ''/opt/deployers/scripts/cifsMount.sh'')
         (utf8_encode (lit ''acct1 share1 user1 pw1\<newline>'')),
       Subprocess [lit ''scp'', lit ''/opt/deployers/scripts/cifsMount.sh'',
                   lit ''azureuser@master.example.com:./''] 0,
       Subprocess [lit ''scp'', lit ''/opt/deployers/scripts/mountShares.sh'',
                   lit ''azureuser@master.example.com:./''] 0,
       Subprocess [lit ''scp'', lit ''/home/op/.ssh/id_rsa'',
                   lit ''azureuser@master.example.com:./id_rsa''] 0,
       SessionEnter,
       StdinWrite (''chmod 600 '' @ map char_of (lit ''id_rsa'') @ ''\<newline>''),
       StdinWrite ''eval ssh-agent -s\<newline>'',
       StdinWrite (''ssh-add '' @ map char_of (lit ''id_rsa'') @ ''\<newline>''),
       Print (lit ''Running mountShares on remote master. Cmd:\<newline>sh mountShares.sh ~/id_rsa\<newline>\<newline>''),
       StdinWrite (''sh mountShares.sh ~/'' @ map char_of (lit ''id_rsa'') @ ''\<newline>''),
       Communicate ''exit\<newline>'',
       SessionExit,
       Print (lit ''Finished mounting shares.\<newline>''),
       Print (lit ''Stdout:\<newline>    ok\<newline>\<newline>''),
       DeployContainer (Some (container_registry sample_deployer))])"
  by (simp add: run_defs sample_values sample_host_def lit_def) code_simp

lemma sample_example_deploy:
  "example_deploy sample_deployer sample_host [] =
     (Returned (),
      [SetupImage (lit ''mesosphere/simple-docker'') (lit ''simple-docker''),
       Print (lit ''Mounting file share on all machines in cluster...\<newline>''),
       OpenRead (lit ''cifsMountTemplate.sh''),
       OpenWrite (lit ''cifsMount.sh''),
       FileWrite (lit ''cifsMount.sh'') (utf8_encode (lit ''acct1 share1 user1 pw1\<newline>'')),
       Subprocess [lit ''scp'', lit ''cifsMount.sh'', lit ''azureuser@master.example.com:./''] 0,
       Subprocess [lit ''scp'', lit ''mountShares.sh'', lit ''azureuser@master.example.com:./''] 0,
       Subprocess [lit ''scp'', lit ''/home/op/.ssh/id_rsa'',
                   lit ''azureuser@master.example.com:./id_rsa''] 0,
       SessionEnter,
       StdinWrite (''chmod 600 '' @ map char_of (lit ''id_rsa'') @ ''\<newline>''),
       StdinWrite ''eval ssh-agent -s\<newline>'',
       StdinWrite (''ssh-add '' @ map char_of (lit ''id_rsa'') @ ''\<newline>''),
       Print (lit ''Running mountShares on remote master. Cmd:\<newline>sh mountShares.sh ~/id_rsa\<newline>\<newline>''),
       StdinWrite (''sh mountShares.sh ~/'' @ map char_of (lit ''id_rsa'') @ ''\<newline>''),
       Communicate ''exit\<newline>'',
       SessionExit,
       Print (lit ''Stdout:\<newline>    ok\<newline>\<newline>''),
       DeployContainerFromRegistry (lit ''user1.azurecr.io/simple-docker'')
         (Some (container_registry sample_deployer))])"
  by (simp add: run_defs sample_values sample_host_def lit_def) code_simp

subsection \<open>Kinds of events in a run\<close>

lemma file_event_kinds:
  "is_file_event ev \<Longrightarrow> \<not> is_transfer ev \<and> \<not> is_session_event ev \<and> \<not> is_stdin_write ev
     \<and> \<not> is_launch ev \<and> \<not> is_print ev \<and> ev \<noteq> SessionEnter"
  by (cases ev) simp_all

lemma print_kinds:
  "is_print ev \<Longrightarrow> \<not> is_transfer ev \<and> \<not> is_session_event ev \<and> \<not> is_stdin_write ev
     \<and> \<not> is_launch ev \<and> \<not> is_file_event ev \<and> \<not> is_file_write ev \<and> ev \<noteq> SessionEnter"
  by (cases ev) simp_all

lemma filter_files:
  assumes "\<forall>ev \<in> set R. is_file_event ev"
  shows "filter is_transfer R = []" "filter is_session_event R = []"
    "filter is_stdin_write R = []" "filter is_launch R = []"
  using assms file_event_kinds by (auto simp: filter_empty_conv)

lemma filter_prints:
  assumes "\<forall>ev \<in> set T. is_print ev"
  shows "filter is_transfer T = []" "filter is_session_event T = []"
    "filter is_stdin_write T = []" "filter is_launch T = []" "filter is_file_write T = []"
  using assms print_kinds by (auto simp: filter_empty_conv)

lemma takeWhile_files:
  assumes "\<forall>ev \<in> set R. is_file_event ev"
  shows "takeWhile (\<lambda>ev. ev \<noteq> SessionEnter) (R @ xs) = R @ takeWhile (\<lambda>ev. ev \<noteq> SessionEnter) xs"
  using assms file_event_kinds by (intro takeWhile_append2) blast

lemma ascii_encode_ascii: "ascii k \<Longrightarrow> ascii_encode k = Inr (map char_of k)"
  by (simp add: ascii_encode_def ascii_def)

lemma run_shape_returned:
  assumes "run_shape self script helper launch (Returned ()) body"
  obtains R T where "\<forall>ev \<in> set R. is_file_event ev" "\<forall>ev \<in> set T. is_print ev"
    "ascii (basename (get_key_path (container_service self)))"
    "body = R @ Subprocess (transfer_argv self script []) 0
          # Subprocess (transfer_argv self helper []) 0
          # Subprocess (transfer_argv self (get_key_path (container_service self))
                         (basename (get_key_path (container_service self)))) 0
          # session_events (basename (get_key_path (container_service self))) @ T @ [launch]"
  using assms by cases auto

lemma run_shape_session_events:
  assumes "run_shape self script helper launch (Returned ()) body"
    and "\<not> is_session_event launch"
  shows "filter is_session_event body =
     [SessionEnter,
      StdinWrite (''chmod 600 '' @ map char_of (basename (get_key_path (container_service self)))
                    @ ''\<newline>''),
      StdinWrite ''eval ssh-agent -s\<newline>'',
      StdinWrite (''ssh-add '' @ map char_of (basename (get_key_path (container_service self)))
                    @ ''\<newline>''),
      StdinWrite (''sh mountShares.sh ~/''
                    @ map char_of (basename (get_key_path (container_service self))) @ ''\<newline>''),
      Communicate ''exit\<newline>'',
      SessionExit]"
proof -
  from assms(1) obtain R T where *: "\<forall>ev \<in> set R. is_file_event ev" "\<forall>ev \<in> set T. is_print ev"
    "body = R @ Subprocess (transfer_argv self script []) 0
          # Subprocess (transfer_argv self helper []) 0
          # Subprocess (transfer_argv self (get_key_path (container_service self))
                         (basename (get_key_path (container_service self)))) 0
          # session_events (basename (get_key_path (container_service self))) @ T @ [launch]"
    by (rule run_shape_returned)
  show ?thesis
    using assms(2) by (simp add: *(3) filter_files [OF *(1)] filter_prints [OF *(2)] session_events_def)
qed

lemma run_shape_transfer_form:
  assumes "run_shape self script helper launch r body"
    and "Subprocess argv rc \<in> set body" and "\<not> is_transfer launch"
  shows "\<exists>p q. argv = transfer_argv self p q"
  using assms(1)
proof cases
  case render_failed
  with assms(2) files_no_transfer show ?thesis by blast
next
  case (first_failed R rc')
  then have "Subprocess argv rc \<notin> set R" using files_no_transfer by blast
  with first_failed assms(2) show ?thesis by (auto simp: remediation_def)
next
  case (second_failed R rc')
  then have "Subprocess argv rc \<notin> set R" using files_no_transfer by blast
  with second_failed assms(2) show ?thesis by (auto simp: remediation_def)
next
  case (third_failed R rc')
  then have "Subprocess argv rc \<notin> set R" using files_no_transfer by blast
  with third_failed assms(2) show ?thesis by (auto simp: remediation_def)
next
  case (encode_failed R)
  then have "Subprocess argv rc \<notin> set R" using files_no_transfer by blast
  with encode_failed assms(2) show ?thesis by auto
next
  case (report_failed R T e)
  then have "Subprocess argv rc \<notin> set R" "Subprocess argv rc \<notin> set T"
    using files_no_transfer prints_no_transfer by blast+
  with report_failed assms(2) show ?thesis by (auto simp: session_events_def)
next
  case (launched R T)
  then have "Subprocess argv rc \<notin> set R" "Subprocess argv rc \<notin> set T"
    using files_no_transfer prints_no_transfer by blast+
  with launched assms(2,3) show ?thesis by (auto simp: session_events_def)
qed

lemma run_shape_before_session:
  assumes "run_shape self script helper launch r body" and "SessionEnter \<in> set body"
  shows "filter is_transfer (takeWhile (\<lambda>ev. ev \<noteq> SessionEnter) body) =
     [Subprocess (transfer_argv self script []) 0,
      Subprocess (transfer_argv self helper []) 0,
      Subprocess (transfer_argv self (get_key_path (container_service self))
                    (basename (get_key_path (container_service self)))) 0]"
  using assms(1)
proof cases
  case render_failed
  with assms(2) files_no_session show ?thesis by blast
next
  case (first_failed R rc')
  then have "SessionEnter \<notin> set R" using files_no_session by blast
  with first_failed assms(2) show ?thesis by (auto simp: remediation_def)
next
  case (second_failed R rc')
  then have "SessionEnter \<notin> set R" using files_no_session by blast
  with second_failed assms(2) show ?thesis by (auto simp: remediation_def)
next
  case (third_failed R rc')
  then have "SessionEnter \<notin> set R" using files_no_session by blast
  with third_failed assms(2) show ?thesis by (auto simp: remediation_def)
next
  case (encode_failed R)
  then have files: "\<forall>ev \<in> set R. is_file_event ev" by simp
  show ?thesis
    unfolding encode_failed(2)
    by (simp add: takeWhile_files [OF files] filter_files [OF files])
next
  case (report_failed R T e)
  then have files: "\<forall>ev \<in> set R. is_file_event ev" by simp
  show ?thesis
    unfolding report_failed(2)
    by (simp add: takeWhile_files [OF files] filter_files [OF files] session_events_def)
next
  case (launched R T)
  then have files: "\<forall>ev \<in> set R. is_file_event ev" by simp
  show ?thesis
    unfolding launched(2)
    by (simp add: takeWhile_files [OF files] filter_files [OF files] session_events_def)
qed

lemma run_shape_transfer_count:
  assumes "run_shape self script helper launch r body" and "\<not> is_transfer launch"
  shows "length (filter is_transfer body) \<le> 3"
  using assms(1)
proof cases
  case render_failed
  then show ?thesis by (simp add: filter_files)
next
  case (first_failed R rc')
  then show ?thesis by (simp add: filter_files remediation_def)
next
  case (second_failed R rc')
  then show ?thesis by (simp add: filter_files remediation_def)
next
  case (third_failed R rc')
  then show ?thesis by (simp add: filter_files remediation_def)
next
  case (encode_failed R)
  then show ?thesis by (simp add: filter_files)
next
  case (report_failed R T e)
  then show ?thesis by (simp add: filter_files filter_prints session_events_def)
next
  case (launched R T)
  then show ?thesis using assms(2) by (simp add: filter_files filter_prints session_events_def)
qed

subsection \<open>The session and the launch in a run\<close>

lemma files_no_stdin: "\<forall>ev \<in> set R. is_file_event ev \<Longrightarrow> StdinWrite b \<notin> set R"
  by auto

lemma prints_no_stdin: "\<forall>ev \<in> set T. is_print ev \<Longrightarrow> StdinWrite b \<notin> set T"
  by auto

lemma files_no_communicate: "\<forall>ev \<in> set R. is_file_event ev \<Longrightarrow> Communicate b \<notin> set R"
  by auto

lemma ascii_encode_lit:
  "\<forall>c \<in> set x. (of_char c :: nat) < 128 \<Longrightarrow> ascii_encode (lit x) = Inr x"
  using ascii_encode_literal [of x "[]" "[]"] by (simp add: ascii_def lit_def)

lemma run_shape_stdin:
  assumes "run_shape self script helper launch r body"
    and "StdinWrite b \<in> set body" and "\<not> is_stdin_write launch"
  shows "\<exists>s. ascii_encode s = Inr b"
proof -
  let ?k = "basename (get_key_path (container_service self))"
  have enc: "\<exists>s. ascii_encode s = Inr b"
    if "ascii ?k" "StdinWrite b \<in> set (session_events ?k)"
  proof -
    from that(2) consider "b = ''chmod 600 '' @ map char_of ?k @ ''\<newline>''"
      | "b = ''eval ssh-agent -s\<newline>''"
      | "b = ''ssh-add '' @ map char_of ?k @ ''\<newline>''"
      | "b = ''sh mountShares.sh ~/'' @ map char_of ?k @ ''\<newline>''"
      by (auto simp: session_events_def)
    then show ?thesis
    proof cases
      case 1
      with that(1) encode_commands(1) [of ?k] show ?thesis by auto
    next
      case 2
      have "ascii_encode (lit ''eval ssh-agent -s\<newline>'') = Inr ''eval ssh-agent -s\<newline>''"
        by (rule ascii_encode_lit) simp
      with 2 show ?thesis by blast
    next
      case 3
      with that(1) encode_commands(2) [of ?k] show ?thesis by auto
    next
      case 4
      with that(1) encode_commands(3) [of ?k] show ?thesis by auto
    qed
  qed
  from assms(1) show ?thesis
  proof cases
    case render_failed
    with assms(2) files_no_stdin show ?thesis by blast
  next
    case (first_failed R rc')
    then have "StdinWrite b \<notin> set R" using files_no_stdin by blast
    with first_failed assms(2) show ?thesis by (auto simp: remediation_def)
  next
    case (second_failed R rc')
    then have "StdinWrite b \<notin> set R" using files_no_stdin by blast
    with second_failed assms(2) show ?thesis by (auto simp: remediation_def)
  next
    case (third_failed R rc')
    then have "StdinWrite b \<notin> set R" using files_no_stdin by blast
    with third_failed assms(2) show ?thesis by (auto simp: remediation_def)
  next
    case (encode_failed R)
    then have "StdinWrite b \<notin> set R" using files_no_stdin by blast
    with encode_failed assms(2) show ?thesis by auto
  next
    case (report_failed R T e)
    then have "StdinWrite b \<notin> set R" "StdinWrite b \<notin> set T"
      using files_no_stdin prints_no_stdin by blast+
    with report_failed assms(2) have "StdinWrite b \<in> set (session_events ?k)"
      by auto
    with report_failed enc show ?thesis by blast
  next
    case (launched R T)
    then have "StdinWrite b \<notin> set R" "StdinWrite b \<notin> set T"
      using files_no_stdin prints_no_stdin by blast+
    with launched assms(2,3) have "StdinWrite b \<in> set (session_events ?k)"
      by auto
    with launched enc show ?thesis by blast
  qed
qed

lemma run_shape_not_ascii:
  assumes "run_shape self script helper launch r body"
    and "\<not> ascii (basename (get_key_path (container_service self)))"
    and "SessionEnter \<in> set body"
  shows "r = Raised UnicodeEncodeError \<and> (\<forall>b. StdinWrite b \<notin> set body)
         \<and> (\<exists>pre. body = pre @ [SessionEnter, SessionExit])"
  using assms(1)
proof cases
  case render_failed
  with assms(3) files_no_session show ?thesis by blast
next
  case (first_failed R rc')
  then have "SessionEnter \<notin> set R" using files_no_session by blast
  with first_failed assms(3) show ?thesis by (auto simp: remediation_def)
next
  case (second_failed R rc')
  then have "SessionEnter \<notin> set R" using files_no_session by blast
  with second_failed assms(3) show ?thesis by (auto simp: remediation_def)
next
  case (third_failed R rc')
  then have "SessionEnter \<notin> set R" using files_no_session by blast
  with third_failed assms(3) show ?thesis by (auto simp: remediation_def)
next
  case (encode_failed R)
  then have files: "\<forall>ev \<in> set R. is_file_event ev" by simp
  have "body = (R @ [Subprocess (transfer_argv self script []) 0,
             Subprocess (transfer_argv self helper []) 0,
             Subprocess (transfer_argv self (get_key_path (container_service self))
                           (basename (get_key_path (container_service self)))) 0])
          @ [SessionEnter, SessionExit]"
    using encode_failed by simp
  then have "\<exists>pre. body = pre @ [SessionEnter, SessionExit]" by blast
  with encode_failed files_no_stdin [OF files] show ?thesis by auto
next
  case (report_failed R T e)
  with assms(2) show ?thesis by simp
next
  case (launched R T)
  with assms(2) show ?thesis by simp
qed

lemma run_shape_communicate:
  assumes "run_shape self script helper launch r body"
    and "Communicate input \<in> set body" and "\<not> is_stdin_write launch"
  shows "ascii (basename (get_key_path (container_service self)))
     \<and> Subprocess (transfer_argv self (get_key_path (container_service self))
                    (basename (get_key_path (container_service self)))) 0 \<in> set body
     \<and> filter is_stdin_write body =
         [StdinWrite (''chmod 600 '' @ map char_of (basename (get_key_path (container_service self)))
                    @ ''\<newline>''),
          StdinWrite ''eval ssh-agent -s\<newline>'',
          StdinWrite (''ssh-add '' @ map char_of (basename (get_key_path (container_service self)))
                    @ ''\<newline>''),
          StdinWrite (''sh mountShares.sh ~/''
                    @ map char_of (basename (get_key_path (container_service self))) @ ''\<newline>'')]"
  using assms(1)
proof cases
  case render_failed
  with assms(2) files_no_communicate show ?thesis by blast
next
  case (first_failed R rc')
  then have "Communicate input \<notin> set R" using files_no_communicate by blast
  with first_failed assms(2) show ?thesis by (auto simp: remediation_def)
next
  case (second_failed R rc')
  then have "Communicate input \<notin> set R" using files_no_communicate by blast
  with second_failed assms(2) show ?thesis by (auto simp: remediation_def)
next
  case (third_failed R rc')
  then have "Communicate input \<notin> set R" using files_no_communicate by blast
  with third_failed assms(2) show ?thesis by (auto simp: remediation_def)
next
  case (encode_failed R)
  then have "Communicate input \<notin> set R" using files_no_communicate by blast
  with encode_failed assms(2) show ?thesis by auto
next
  case (report_failed R T e)
  then show ?thesis
    by (simp add: filter_files filter_prints session_events_def)
next
  case (launched R T)
  then show ?thesis
    using assms(3) by (simp add: filter_files filter_prints session_events_def)
qed

lemma run_shape_launch:
  assumes "run_shape self script helper launch r body" and "is_launch launch"
  shows "filter is_launch body = (if r = Returned () then [launch] else [])
         \<and> (r = Returned () \<longrightarrow> last body = launch)"
  using assms(1)
proof cases
  case render_failed
  then show ?thesis by (simp add: filter_files)
next
  case (first_failed R rc')
  then show ?thesis by (simp add: filter_files remediation_def)
next
  case (second_failed R rc')
  then show ?thesis by (simp add: filter_files remediation_def)
next
  case (third_failed R rc')
  then show ?thesis by (simp add: filter_files remediation_def)
next
  case (encode_failed R)
  then show ?thesis by (simp add: filter_files)
next
  case (report_failed R T e)
  then show ?thesis by (simp add: filter_files filter_prints session_events_def)
next
  case (launched R T)
  then show ?thesis
    using assms(2) by (simp add: filter_files filter_prints session_events_def)
qed

section \<open>The claims\<close>

subsection \<open>The output formatter\<close>

text \<open>
  Claim C4, as amended. The formatter prints nothing for an empty buffer. For a buffer
  that is the UTF-8 encoding of a non-empty text, when standard output can encode the
  label and the text, it prints, in one call, a header line, then one line per piece of
  the text split at \<open>\n\<close>, each behind the same four spaces, then an empty line; the
  pieces are as many as the newlines of the text plus one, joined by \<open>\n\<close> they give
  the text back, and none contains a \<open>\n\<close>. (The claim as written, for all buffers,
  fails on a buffer that is not well-formed UTF-8, and on a text that standard output
  cannot encode: see \<open>format_proc_output_no_indented_block\<close>.)
\<close>

theorem format_proc_output_report:
  "format_proc_output h header [] log = (Returned (), log)
   \<and> ((\<forall>c \<in> set s. scalar_value c) \<and> s \<noteq> []
        \<and> stdout_accepts h header \<and> stdout_accepts h s \<longrightarrow>
        format_proc_output h header (utf8_encode s) log =
          (Returned (),
           log @ [Print (concat (map (\<lambda>line. line @ lit ''\<newline>'')
                    ([header] @ map (\<lambda>line. lit ''    '' @ line) (py_split 10 s) @ [[]])))])
        \<and> length (py_split 10 s) = Suc (count_list s 10)
        \<and> py_join (lit ''\<newline>'') (py_split 10 s) = s
        \<and> (\<forall>line \<in> set (py_split 10 s). 10 \<notin> set line))"
proof -
  have nl: "lit ''\<newline>'' = [10]" by (simp add: lit_def)
  have 1: "format_proc_output h header [] log = (Returned (), log)"
    by (simp add: format_proc_output_run)
  have 2: "format_proc_output h header (utf8_encode s) log =
          (Returned (),
           log @ [Print (concat (map (\<lambda>line. line @ lit ''\<newline>'')
                    ([header] @ map (\<lambda>line. lit ''    '' @ line) (py_split 10 s) @ [[]])))])"
    if s: "\<forall>c \<in> set s. scalar_value c" "s \<noteq> []"
      and ok: "stdout_accepts h header" "stdout_accepts h s"
  proof -
    have "map ((@) (lit ''    '')) (py_split 10 s) \<noteq> []"
      by (simp add: py_split_not_Nil)
    from py_join_terminated [OF this, of 10]
    have "py_join [10] (map ((@) (lit ''    '')) (py_split 10 s)) @ [10, 10]
          = concat (map (\<lambda>x. x @ [10]) (map ((@) (lit ''    '')) (py_split 10 s))) @ [10]"
      by simp
    then show ?thesis
      using s ok
      by (simp add: format_proc_output_run utf8_encode_Nil_iff utf8_roundtrip nl comp_def)
  qed
  show ?thesis
    using 1 2 by (auto simp: nl length_py_split py_join_py_split dest: py_split_pieces)
qed

theorem format_proc_output_report_witness:
  "list_all scalar_value (lit ''a\<newline>b'') \<and> lit ''a\<newline>b'' \<noteq> []
   \<and> stdout_accepts ascii_stdout_host (lit ''Stdout:'')
   \<and> stdout_accepts ascii_stdout_host (lit ''a\<newline>b'')
   \<and> format_proc_output ascii_stdout_host (lit ''Stdout:'') (utf8_encode (lit ''a\<newline>b'')) []
       = (Returned (), [Print (lit ''Stdout:\<newline>    a\<newline>    b\<newline>\<newline>'')])
   \<and> length (py_split 10 (lit ''a\<newline>b'')) = 2"
proof -
  have a: "(\<forall>c \<in> set (lit ''a\<newline>b''). scalar_value c) \<and> lit ''a\<newline>b'' \<noteq> []"
    by (simp add: lit_def scalar_value_def)
  have b: "stdout_accepts ascii_stdout_host (lit ''Stdout:'')"
    "stdout_accepts ascii_stdout_host (lit ''a\<newline>b'')"
    by (simp_all add: stdout_accepts_def lit_def)
  from format_proc_output_report [of ascii_stdout_host "lit ''Stdout:''" "[]" "lit ''a\<newline>b''"] a b
  show ?thesis
    by (simp add: lit_def list_all_iff)
qed

theorem format_proc_output_no_indented_block:
  "[CHR 0x80] \<noteq> []
   \<and> format_proc_output sample_host (lit ''Stdout:'') [CHR 0x80] []
       = (Raised UnicodeDecodeError, [])
   \<and> format_proc_output ascii_stdout_host (lit ''Stderr:'')
         [CHR 0x68, CHR 0xC3, CHR 0xA9, CHR 0xE2, CHR 0x82, CHR 0xAC] []
       = (Raised UnicodeEncodeError, [Print (lit ''Stderr:\<newline>'')])"
  by (simp add: run_defs continuation_def ascii_stdout_host_def sample_host_def lit_def)

text \<open>
  A buffer that ends with a newline has an empty last piece, printed as a line of four
  spaces.
\<close>

lemma format_proc_output_final_newline:
  "format_proc_output sample_host (lit ''Stdout:'') ''ok\<newline>'' []
     = (Returned (), [Print (lit ''Stdout:\<newline>    ok\<newline>    \<newline>\<newline>'')])"
  by (simp add: run_defs sample_host_def lit_def)

text \<open>
  Claim C5, as amended. The formatter returns without error exactly on the empty buffer
  and on the buffers that are the UTF-8 encoding of a text such that standard output can
  encode the label and the text. A non-empty buffer that is not well-formed UTF-8 raises
  \<open>UnicodeDecodeError\<close> and leaves the trace as it was. A well-formed one raises
  \<open>UnicodeEncodeError\<close> when standard output cannot encode the label, with nothing
  printed, or when it can encode the label but not the text, with the header line
  printed. (The claim as written, that it never raises, fails:
  see \<open>format_proc_output_raises\<close>.)
\<close>

theorem format_proc_output_returns_iff:
  "(fst (format_proc_output h header output log) = Returned ()
      \<longleftrightarrow> output = []
          \<or> (\<exists>s. (\<forall>c \<in> set s. scalar_value c) \<and> output = utf8_encode s
                 \<and> stdout_accepts h header \<and> stdout_accepts h s))
   \<and> (output \<noteq> [] \<and> \<not> (\<exists>s. (\<forall>c \<in> set s. scalar_value c) \<and> output = utf8_encode s)
      \<longrightarrow> format_proc_output h header output log = (Raised UnicodeDecodeError, log))
   \<and> (output \<noteq> [] \<and> (\<forall>c \<in> set s. scalar_value c) \<and> output = utf8_encode s
        \<and> \<not> stdout_accepts h header
      \<longrightarrow> format_proc_output h header output log = (Raised UnicodeEncodeError, log))
   \<and> (output \<noteq> [] \<and> (\<forall>c \<in> set s. scalar_value c) \<and> output = utf8_encode s
        \<and> stdout_accepts h header \<and> \<not> stdout_accepts h s
      \<longrightarrow> format_proc_output h header output log
            = (Raised UnicodeEncodeError, log @ [Print (header @ lit ''\<newline>'')]))"
proof -
  let ?wf = "\<lambda>t. (\<forall>c \<in> set t. scalar_value c) \<and> output = utf8_encode t"
  have nl: "lit ''\<newline>'' = [10]" by (simp add: lit_def)
  have decoded: "utf8_decode output = Inr t" if "?wf t" for t
    using that utf8_roundtrip by simp
  have empty: "fst (format_proc_output h header output log) = Returned ()" if "output = []"
    using that by (simp add: format_proc_output_run)
  have malformed: "format_proc_output h header output log = (Raised UnicodeDecodeError, log)"
    if "output \<noteq> []" "\<not> (\<exists>t. ?wf t)"
  proof (cases "utf8_decode output")
    case (Inl e)
    then have "e = UnicodeDecodeError" by (rule utf8_decode_error)
    with Inl that(1) show ?thesis by (simp add: format_proc_output_run)
  next
    case (Inr t)
    with that(2) utf8_decode_sound show ?thesis by blast
  qed
  have run: "format_proc_output h header output log =
      (if \<not> stdout_accepts h header then (Raised UnicodeEncodeError, log)
       else if \<not> stdout_accepts h t then (Raised UnicodeEncodeError, log @ [Print (header @ [10])])
       else (Returned (),
             log @ [Print (header @ [10] @
                      py_join [10] (map ((@) (lit ''    '')) (py_split 10 t)) @ [10, 10])]))"
    if "output \<noteq> []" "?wf t" for t
    using that(1) decoded [OF that(2)] by (simp add: format_proc_output_run)
  have iff: "fst (format_proc_output h header output log) = Returned ()
      \<longleftrightarrow> output = [] \<or> (\<exists>t. ?wf t \<and> stdout_accepts h header \<and> stdout_accepts h t)"
  proof (cases "output = []")
    case True
    with empty show ?thesis by simp
  next
    case ne: False
    show ?thesis
    proof (cases "\<exists>t. ?wf t")
      case False
      with malformed [OF ne] ne show ?thesis by auto
    next
      case True
      then obtain t where t: "?wf t" by blast
      have same: "u = t" if "?wf u" for u
        using decoded [OF t] decoded [OF that] by simp
      from run [OF ne t] have "fst (format_proc_output h header output log) = Returned ()
          \<longleftrightarrow> stdout_accepts h header \<and> stdout_accepts h t"
        by simp
      with ne t same show ?thesis by blast
    qed
  qed
  have bad_label: "format_proc_output h header output log = (Raised UnicodeEncodeError, log)"
    if "output \<noteq> []" "?wf s" "\<not> stdout_accepts h header"
    using run [OF that(1,2)] that(3) by simp
  have bad_text: "format_proc_output h header output log
              = (Raised UnicodeEncodeError, log @ [Print (header @ lit ''\<newline>'')])"
    if "output \<noteq> []" "?wf s" "stdout_accepts h header" "\<not> stdout_accepts h s"
    using run [OF that(1,2)] that(3,4) by (simp add: nl)
  from iff malformed bad_label bad_text show ?thesis
    by blast
qed

theorem format_proc_output_returns_iff_witness:
  "list_all scalar_value [104, 233, 8364]
   \<and> stdout_accepts sample_host (lit ''Stderr:'')
   \<and> stdout_accepts sample_host [104, 233, 8364]
   \<and> fst (format_proc_output sample_host (lit ''Stderr:'') (utf8_encode [104, 233, 8364]) [])
       = Returned ()
   \<and> [CHR 0xC3] \<noteq> []
   \<and> format_proc_output sample_host (lit ''Stderr:'') [CHR 0xC3] []
       = (Raised UnicodeDecodeError, [])
   \<and> utf8_encode [104, 233, 8364] \<noteq> []
   \<and> \<not> stdout_accepts ascii_stdout_host [104, 233, 8364]
   \<and> format_proc_output ascii_stdout_host (lit ''Stderr:'') (utf8_encode [104, 233, 8364]) []
       = (Raised UnicodeEncodeError, [Print (lit ''Stderr:\<newline>'')])
   \<and> \<not> stdout_accepts sample_host [55296]
   \<and> format_proc_output sample_host [55296] (utf8_encode [104, 233, 8364]) []
       = (Raised UnicodeEncodeError, [])"
proof -
  let ?s = "[104, 233, 8364] :: pystr"
  have s: "\<forall>c \<in> set ?s. scalar_value c"
    by (simp add: scalar_value_def)
  have ne: "utf8_encode ?s \<noteq> []"
    by (simp add: utf8_encode_Nil_iff)
  have ok: "stdout_accepts sample_host (lit ''Stderr:'')" "stdout_accepts sample_host ?s"
    "stdout_accepts ascii_stdout_host (lit ''Stderr:'')"
    by (simp_all add: stdout_accepts_def sample_host_def ascii_stdout_host_def scalar_value_def
        lit_def)
  have no: "\<not> stdout_accepts ascii_stdout_host ?s" "\<not> stdout_accepts sample_host [55296]"
    by (simp_all add: stdout_accepts_def sample_host_def ascii_stdout_host_def scalar_value_def)
  have bad: "\<not> (\<exists>s. (\<forall>c \<in> set s. scalar_value c) \<and> [CHR 0xC3] = utf8_encode s)"
  proof
    assume "\<exists>s. (\<forall>c \<in> set s. scalar_value c) \<and> [CHR 0xC3] = utf8_encode s"
    then obtain t where "\<forall>c \<in> set t. scalar_value c" "[CHR 0xC3] = utf8_encode t"
      by blast
    with utf8_roundtrip [of t] have "utf8_decode [CHR 0xC3] = Inr t"
      by simp
    then show False
      by (simp add: utf8_decode_def)
  qed
  from format_proc_output_returns_iff [of sample_host "lit ''Stderr:''" "utf8_encode ?s" "[]" ?s]
    s ok
  have 1: "fst (format_proc_output sample_host (lit ''Stderr:'') (utf8_encode ?s) []) = Returned ()"
    by blast
  from format_proc_output_returns_iff [of sample_host "lit ''Stderr:''" "[CHR 0xC3]" "[]" "[]"] bad
  have 2: "format_proc_output sample_host (lit ''Stderr:'') [CHR 0xC3] []
           = (Raised UnicodeDecodeError, [])"
    by simp
  from format_proc_output_returns_iff
    [of ascii_stdout_host "lit ''Stderr:''" "utf8_encode ?s" "[]" ?s] s ne ok(3) no(1)
  have 3: "format_proc_output ascii_stdout_host (lit ''Stderr:'') (utf8_encode ?s) []
           = (Raised UnicodeEncodeError, [Print (lit ''Stderr:\<newline>'')])"
    by (simp add: lit_def)
  from format_proc_output_returns_iff [of sample_host "[55296]" "utf8_encode ?s" "[]" ?s]
    s ne no(2)
  have 4: "format_proc_output sample_host [55296] (utf8_encode ?s) []
           = (Raised UnicodeEncodeError, [])"
    by simp
  from s ok no ne 1 2 3 4 show ?thesis
    by (simp add: list_all_iff)
qed

theorem format_proc_output_raises:
  "fst (format_proc_output sample_host (lit ''Stderr:'') [CHR 0xFF, CHR 0xFE] [])
     = Raised UnicodeDecodeError
   \<and> fst (format_proc_output ascii_stdout_host (lit ''Stderr:'')
            [CHR 0x68, CHR 0xC3, CHR 0xA9, CHR 0xE2, CHR 0x82, CHR 0xAC] [])
     = Raised UnicodeEncodeError
   \<and> fst (format_proc_output sample_host [55296] ''ok'' []) = Raised UnicodeEncodeError"
  by (simp add: run_defs continuation_def ascii_stdout_host_def sample_host_def scalar_value_def
      lit_def)

subsection \<open>The registry image name\<close>

text \<open>
  Claim C7. Both \<open>deploy\<close> functions start by taking the last piece of the image
  reference split at \<open>/\<close>; the indexing never fails, and the first thing a deployment
  does is to stage the image under that name. The name is what follows the last slash of
  the reference, and the whole reference when it has no slash.
\<close>

theorem registry_image_name_is_last_segment:
  "\<exists>n. py_index (py_split 47 (docker_image self)) (- 1) = Inr n
      \<and> (\<exists>r body. deploy self h log = (r, log @ SetupImage (docker_image self) n # body))
      \<and> (\<exists>r body. example_deploy self h log = (r, log @ SetupImage (docker_image self) n # body))
      \<and> (47 \<notin> set (docker_image self) \<longrightarrow> n = docker_image self)
      \<and> (\<forall>pre seg. docker_image self = pre @ 47 # seg \<and> 47 \<notin> set seg \<longrightarrow> n = seg)"
proof -
  let ?n = "last (py_split 47 (docker_image self))"
  obtain r tr where d: "deploy self h log = (r, tr)" by (cases "deploy self h log")
  obtain r' tr' where e: "example_deploy self h log = (r', tr')"
    by (cases "example_deploy self h log")
  from deploy_shape [OF d] obtain body where
    "tr = log @ SetupImage (docker_image self) ?n # body" by auto
  with d have 1: "\<exists>r body. deploy self h log = (r, log @ SetupImage (docker_image self) ?n # body)"
    by blast
  from example_deploy_shape [OF e] obtain body' where
    "tr' = log @ SetupImage (docker_image self) ?n # body'" by auto
  with e have 2: "\<exists>r body. example_deploy self h log
                    = (r, log @ SetupImage (docker_image self) ?n # body)"
    by blast
  have 3: "47 \<notin> set (docker_image self) \<longrightarrow> ?n = docker_image self"
    by (simp add: py_split_no_sep)
  have 4: "\<forall>pre seg. docker_image self = pre @ 47 # seg \<and> 47 \<notin> set seg \<longrightarrow> ?n = seg"
    by (auto simp: py_split_append py_split_no_sep)
  from last_segment 1 2 3 4 show ?thesis by blast
qed

theorem registry_image_name_is_last_segment_witness:
  "docker_image sample_deployer = lit ''mesosphere'' @ 47 # lit ''simple-docker''
   \<and> 47 \<notin> set (lit ''simple-docker'')
   \<and> py_index (py_split 47 (docker_image sample_deployer)) (- 1) = Inr (lit ''simple-docker'')
   \<and> 47 \<notin> set (docker_image (sample_deployer\<lparr>docker_image := lit ''nginx''\<rparr>))
   \<and> py_index (py_split 47 (docker_image (sample_deployer\<lparr>docker_image := lit ''nginx''\<rparr>))) (- 1)
       = Inr (lit ''nginx'')"
proof -
  have a: "docker_image sample_deployer = lit ''mesosphere'' @ 47 # lit ''simple-docker''"
    "47 \<notin> set (lit ''simple-docker'')"
    by (simp_all add: sample_deployer_def lit_def)
  from registry_image_name_is_last_segment [of sample_deployer sample_host "[]"]
  obtain n where n: "py_index (py_split 47 (docker_image sample_deployer)) (- 1) = Inr n"
    and seg: "\<forall>pre seg. docker_image sample_deployer = pre @ 47 # seg \<and> 47 \<notin> set seg
                \<longrightarrow> n = seg"
    by blast
  from seg a have "n = lit ''simple-docker''"
    by blast
  with n have 1: "py_index (py_split 47 (docker_image sample_deployer)) (- 1)
                  = Inr (lit ''simple-docker'')"
    by simp
  let ?d = "sample_deployer\<lparr>docker_image := lit ''nginx''\<rparr>"
  have b: "47 \<notin> set (docker_image ?d)"
    by (simp add: lit_def)
  from registry_image_name_is_last_segment [of ?d sample_host "[]"]
  obtain m where m: "py_index (py_split 47 (docker_image ?d)) (- 1) = Inr m"
    and whole: "47 \<notin> set (docker_image ?d) \<longrightarrow> m = docker_image ?d"
    by blast
  from whole b have "m = lit ''nginx''"
    by simp
  with m have 2: "py_index (py_split 47 (docker_image ?d)) (- 1) = Inr (lit ''nginx'')"
    by simp
  from a 1 b 2 show ?thesis by blast
qed

subsection \<open>A failed transfer\<close>

text \<open>
  Claim C1, as amended. A transfer whose copy command exits non-zero prints the trace of
  the failure, then four lines (three fixed lines of advice and, as the fourth, the
  command \<open>ssh <address>\<close> with the address the transfer was resolved for), and ends
  the process with exit status 1. In a deployment, of either variant, a transfer that
  exits non-zero is the last thing but this report: the run ends with exit status 1, the
  session is never opened, and the copy command was \<open>scp <local> <address>:./<name>\<close>.
  (The claim as written counts three lines: see \<open>remediation_is_four_lines\<close>.)
\<close>

theorem transfer_failure_aborts:
  "(exit_status h log
        [lit ''scp'', p, ascii_str (master_ssh_login (container_service self)) @ lit '':./'' @ q] = rc
      \<and> rc \<noteq> 0 \<longrightarrow>
      scp_to_cluster_master self h p q log =
        (SystemExit 1,
         log @ [Subprocess
                  [lit ''scp'', p, ascii_str (master_ssh_login (container_service self)) @ lit '':./'' @ q] rc,
                PrintExc (CalledProcessError rc),
                Print (lit ''It looks like an scp command failed.\<newline>''),
                Print (lit ''Make sure you can ssh into the server without prompts.\<newline>''),
                Print (lit ''Please run the following command to try it:\<newline>''),
                Print (lit ''ssh '' @ ascii_str (master_ssh_login (container_service self)) @ lit ''\<newline>'')])
      \<and> scp_to_container_master self h p q log = scp_to_cluster_master self h p q log)
   \<and> ((deploy self h [] = (r, tr) \<or> example_deploy self h [] = (r, tr))
      \<and> Subprocess argv rc' \<in> set tr \<and> rc' \<noteq> 0 \<longrightarrow>
      r = SystemExit 1 \<and> SessionEnter \<notin> set tr
      \<and> (\<exists>pre. tr = pre @
            [Subprocess argv rc',
             PrintExc (CalledProcessError rc'),
             Print (lit ''It looks like an scp command failed.\<newline>''),
             Print (lit ''Make sure you can ssh into the server without prompts.\<newline>''),
             Print (lit ''Please run the following command to try it:\<newline>''),
             Print (lit ''ssh '' @ ascii_str (master_ssh_login (container_service self)) @ lit ''\<newline>'')])
      \<and> (\<exists>local_path remote_path.
            argv = [lit ''scp'', local_path,
                    ascii_str (master_ssh_login (container_service self)) @ lit '':./'' @ remote_path]))"
proof (intro conjI impI)
  assume "exit_status h log
        [lit ''scp'', p, ascii_str (master_ssh_login (container_service self)) @ lit '':./'' @ q] = rc
      \<and> rc \<noteq> 0"
  then show "scp_to_cluster_master self h p q log =
        (SystemExit 1,
         log @ [Subprocess
                  [lit ''scp'', p, ascii_str (master_ssh_login (container_service self)) @ lit '':./'' @ q] rc,
                PrintExc (CalledProcessError rc),
                Print (lit ''It looks like an scp command failed.\<newline>''),
                Print (lit ''Make sure you can ssh into the server without prompts.\<newline>''),
                Print (lit ''Please run the following command to try it:\<newline>''),
                Print (lit ''ssh '' @ ascii_str (master_ssh_login (container_service self)) @ lit ''\<newline>'')])"
    by (auto simp: scp_run transfer_argv_def remediation_def)
  show "scp_to_container_master self h p q log = scp_to_cluster_master self h p q log"
    by (simp add: scp_to_container_master_eq)
next
  assume a: "(deploy self h [] = (r, tr) \<or> example_deploy self h [] = (r, tr))
      \<and> Subprocess argv rc' \<in> set tr \<and> rc' \<noteq> 0"
  then obtain script helper launch body where
    tr: "tr = SetupImage (docker_image self) (last (py_split 47 (docker_image self)))
               # Print (lit ''Mounting file share on all machines in cluster...\<newline>'') # body"
    and shape: "run_shape self script helper launch r body" and launch: "\<not> is_transfer launch"
    using deploy_shape [of self h "[]" r tr] example_deploy_shape [of self h "[]" r tr]
    by fastforce
  from a tr have "Subprocess argv rc' \<in> set body" by simp
  from run_shape_failed_transfer [OF shape this _ launch] a
  obtain pre p q where
    *: "r = SystemExit 1" "SessionEnter \<notin> set body"
      "body = pre @ Subprocess argv rc' # remediation self rc'" "argv = transfer_argv self p q"
    by blast
  show "r = SystemExit 1" by (rule *(1))
  show "SessionEnter \<notin> set tr" using *(2) tr by simp
  have "tr = (SetupImage (docker_image self) (last (py_split 47 (docker_image self)))
               # Print (lit ''Mounting file share on all machines in cluster...\<newline>'') # pre)
            @ [Subprocess argv rc',
             PrintExc (CalledProcessError rc'),
             Print (lit ''It looks like an scp command failed.\<newline>''),
             Print (lit ''Make sure you can ssh into the server without prompts.\<newline>''),
             Print (lit ''Please run the following command to try it:\<newline>''),
             Print (lit ''ssh '' @ ascii_str (master_ssh_login (container_service self)) @ lit ''\<newline>'')]"
    using tr *(3) by (simp add: remediation_def)
  then show "\<exists>pre. tr = pre @
            [Subprocess argv rc',
             PrintExc (CalledProcessError rc'),
             Print (lit ''It looks like an scp command failed.\<newline>''),
             Print (lit ''Make sure you can ssh into the server without prompts.\<newline>''),
             Print (lit ''Please run the following command to try it:\<newline>''),
             Print (lit ''ssh '' @ ascii_str (master_ssh_login (container_service self)) @ lit ''\<newline>'')]"
    by blast
  show "\<exists>local_path remote_path.
            argv = [lit ''scp'', local_path,
                    ascii_str (master_ssh_login (container_service self)) @ lit '':./'' @ remote_path]"
    using *(4) by (auto simp: transfer_argv_def)
qed

theorem transfer_failure_aborts_witness:
  "Subprocess [lit ''scp'', lit ''/opt/deployers/scripts/cifsMount.sh'',
               lit ''azureuser@master.example.com:./''] 255
     \<in> set (snd (deploy sample_deployer failing_host []))
   \<and> (255 :: int) \<noteq> 0
   \<and> fst (deploy sample_deployer failing_host []) = SystemExit 1
   \<and> SessionEnter \<notin> set (snd (deploy sample_deployer failing_host []))"
proof -
  let ?argv = "[lit ''scp'', lit ''/opt/deployers/scripts/cifsMount.sh'',
                lit ''azureuser@master.example.com:./'']"
  obtain r tr where run: "deploy sample_deployer failing_host [] = (r, tr)"
    by (cases "deploy sample_deployer failing_host []")
  with failing_deploy have mem: "Subprocess ?argv 255 \<in> set tr"
    by auto
  from transfer_failure_aborts
    [of failing_host "[]" "[]" sample_deployer "[]" 0 r tr ?argv 255] run mem
  have "r = SystemExit 1 \<and> SessionEnter \<notin> set tr"
    by simp
  with run mem show ?thesis by simp
qed

theorem remediation_is_four_lines:
  "scp_to_cluster_master sample_deployer failing_host (lit ''cifsMount.sh'') [] [] =
     (SystemExit 1,
      [Subprocess [lit ''scp'', lit ''cifsMount.sh'', lit ''azureuser@master.example.com:./''] 255,
       PrintExc (CalledProcessError 255),
       Print (lit ''It looks like an scp command failed.\<newline>''),
       Print (lit ''Make sure you can ssh into the server without prompts.\<newline>''),
       Print (lit ''Please run the following command to try it:\<newline>''),
       Print (lit ''ssh azureuser@master.example.com\<newline>'')])
   \<and> length (filter is_print
         (snd (scp_to_cluster_master sample_deployer failing_host (lit ''cifsMount.sh'') [] [])))
       = 4"
  by (simp add: run_defs sample_values failing_host_def sample_host_def lit_def)

subsection \<open>The session\<close>

text \<open>
  Claim C2. In a run that returns, of either variant, the session sees exactly this, in
  this order: it is entered; four commands are written to its input (\<open>chmod 600\<close> of
  the key, the start of the SSH agent, \<open>ssh-add\<close> of the key, and the mount script
  with \<open>~/<key>\<close> as its only argument, where \<open><key>\<close> is the ASCII encoding of
  the basename of the key path); \<open>communicate\<close> sends \<open>exit\<close> and yields the
  transcript; the session is left. In the model \<open>communicate\<close> is one event that
  returns the transcript: that it blocks until the remote process ends is the library's
  contract, not a fact of the trace.
\<close>

theorem successful_run_writes_four_commands:
  "(deploy self h [] = (Returned (), tr) \<or> example_deploy self h [] = (Returned (), tr)) \<longrightarrow>
     filter is_session_event tr =
       [SessionEnter,
        StdinWrite (''chmod 600 '' @ map char_of (basename (get_key_path (container_service self)))
                      @ ''\<newline>''),
        StdinWrite ''eval ssh-agent -s\<newline>'',
        StdinWrite (''ssh-add '' @ map char_of (basename (get_key_path (container_service self)))
                      @ ''\<newline>''),
        StdinWrite (''sh mountShares.sh ~/''
                      @ map char_of (basename (get_key_path (container_service self)))
                      @ ''\<newline>''),
        Communicate ''exit\<newline>'',
        SessionExit]
     \<and> ascii_encode (basename (get_key_path (container_service self)))
         = Inr (map char_of (basename (get_key_path (container_service self))))"
proof
  assume a: "deploy self h [] = (Returned (), tr) \<or> example_deploy self h [] = (Returned (), tr)"
  then obtain script helper launch body where
    tr: "tr = SetupImage (docker_image self) (last (py_split 47 (docker_image self)))
               # Print (lit ''Mounting file share on all machines in cluster...\<newline>'') # body"
    and shape: "run_shape self script helper launch (Returned ()) body"
    and launch: "\<not> is_session_event launch"
    using deploy_shape [of self h "[]" "Returned ()" tr]
      example_deploy_shape [of self h "[]" "Returned ()" tr]
    by fastforce
  from shape have "ascii (basename (get_key_path (container_service self)))"
    by (rule run_shape_returned)
  then show "filter is_session_event tr =
       [SessionEnter,
        StdinWrite (''chmod 600 '' @ map char_of (basename (get_key_path (container_service self)))
                      @ ''\<newline>''),
        StdinWrite ''eval ssh-agent -s\<newline>'',
        StdinWrite (''ssh-add '' @ map char_of (basename (get_key_path (container_service self)))
                      @ ''\<newline>''),
        StdinWrite (''sh mountShares.sh ~/''
                      @ map char_of (basename (get_key_path (container_service self)))
                      @ ''\<newline>''),
        Communicate ''exit\<newline>'',
        SessionExit]
     \<and> ascii_encode (basename (get_key_path (container_service self)))
         = Inr (map char_of (basename (get_key_path (container_service self))))"
    using run_shape_session_events [OF shape launch] tr
    by (simp add: ascii_encode_ascii)
qed

theorem successful_run_writes_four_commands_witness:
  "deploy sample_deployer sample_host [] =
     (Returned (), snd (deploy sample_deployer sample_host []))
   \<and> filter is_session_event (snd (deploy sample_deployer sample_host [])) =
       [SessionEnter,
        StdinWrite ''chmod 600 id_rsa\<newline>'',
        StdinWrite ''eval ssh-agent -s\<newline>'',
        StdinWrite ''ssh-add id_rsa\<newline>'',
        StdinWrite ''sh mountShares.sh ~/id_rsa\<newline>'',
        Communicate ''exit\<newline>'',
        SessionExit]"
proof -
  have run: "deploy sample_deployer sample_host [] =
     (Returned (), snd (deploy sample_deployer sample_host []))"
    by (simp add: sample_deploy)
  have k: "map char_of (basename (get_key_path (container_service sample_deployer))) = ''id_rsa''"
    by (simp add: sample_values basename_def lit_def) code_simp
  from successful_run_writes_four_commands
    [of sample_deployer sample_host "snd (deploy sample_deployer sample_host [])"] run
  show ?thesis
    by (simp add: k)
qed

subsection \<open>The transfers\<close>

text \<open>
  Claim C6. In every run, of either variant, every copy command has the form
  \<open>scp <local> <address>:./<name>\<close>, and at most three are made. Whenever the session
  opens, exactly three transfers have been made before it, in this order: the rendered
  \<open>cifsMount.sh\<close> and the fixed \<open>mountShares.sh\<close>, both with an empty remote name,
  and the key file, with its basename as the remote name; all three exited with status 0.
  (A run in which a transfer fails ends there, by \<open>transfer_failure_aborts\<close>, and
  never opens the session.)
\<close>

theorem three_transfers_before_session:
  "(deploy self h [] = (r, tr) \<longrightarrow>
      (\<forall>argv rc. Subprocess argv rc \<in> set tr \<longrightarrow>
         (\<exists>local_path remote_name.
            argv = [lit ''scp'', local_path,
                    ascii_str (master_ssh_login (container_service self)) @ lit '':./'' @ remote_name]))
      \<and> length (filter is_transfer tr) \<le> 3
      \<and> (SessionEnter \<in> set tr \<longrightarrow>
           filter is_transfer (takeWhile (\<lambda>ev. ev \<noteq> SessionEnter) tr) =
             [Subprocess [lit ''scp'', path_join (SCRIPTS_DIR h) (lit ''cifsMount.sh''),
                          ascii_str (master_ssh_login (container_service self)) @ lit '':./'' @ []] 0,
              Subprocess [lit ''scp'', path_join (SCRIPTS_DIR h) (lit ''mountShares.sh''),
                          ascii_str (master_ssh_login (container_service self)) @ lit '':./'' @ []] 0,
              Subprocess [lit ''scp'', get_key_path (container_service self),
                          ascii_str (master_ssh_login (container_service self)) @ lit '':./''
                            @ basename (get_key_path (container_service self))] 0]))
   \<and> (example_deploy self h [] = (r, tr) \<longrightarrow>
      (\<forall>argv rc. Subprocess argv rc \<in> set tr \<longrightarrow>
         (\<exists>local_path remote_name.
            argv = [lit ''scp'', local_path,
                    ascii_str (master_ssh_login (container_service self)) @ lit '':./'' @ remote_name]))
      \<and> length (filter is_transfer tr) \<le> 3
      \<and> (SessionEnter \<in> set tr \<longrightarrow>
           filter is_transfer (takeWhile (\<lambda>ev. ev \<noteq> SessionEnter) tr) =
             [Subprocess [lit ''scp'', lit ''cifsMount.sh'',
                          ascii_str (master_ssh_login (container_service self)) @ lit '':./'' @ []] 0,
              Subprocess [lit ''scp'', lit ''mountShares.sh'',
                          ascii_str (master_ssh_login (container_service self)) @ lit '':./'' @ []] 0,
              Subprocess [lit ''scp'', get_key_path (container_service self),
                          ascii_str (master_ssh_login (container_service self)) @ lit '':./''
                            @ basename (get_key_path (container_service self))] 0]))"
proof -
  have main: "(\<forall>argv rc. Subprocess argv rc \<in> set tr \<longrightarrow>
         (\<exists>local_path remote_name.
            argv = [lit ''scp'', local_path,
                    ascii_str (master_ssh_login (container_service self)) @ lit '':./'' @ remote_name]))
      \<and> length (filter is_transfer tr) \<le> 3
      \<and> (SessionEnter \<in> set tr \<longrightarrow>
           filter is_transfer (takeWhile (\<lambda>ev. ev \<noteq> SessionEnter) tr) =
             [Subprocess [lit ''scp'', script,
                          ascii_str (master_ssh_login (container_service self)) @ lit '':./'' @ []] 0,
              Subprocess [lit ''scp'', helper,
                          ascii_str (master_ssh_login (container_service self)) @ lit '':./'' @ []] 0,
              Subprocess [lit ''scp'', get_key_path (container_service self),
                          ascii_str (master_ssh_login (container_service self)) @ lit '':./''
                            @ basename (get_key_path (container_service self))] 0])"
    if tr: "tr = SetupImage (docker_image self) n # Print m # body"
      and shape: "run_shape self script helper launch r body"
      and launch: "\<not> is_transfer launch"
    for script helper launch body n m
  proof (intro conjI allI impI)
    fix argv rc
    assume "Subprocess argv rc \<in> set tr"
    with tr have "Subprocess argv rc \<in> set body" by simp
    from run_shape_transfer_form [OF shape this launch]
    show "\<exists>local_path remote_name.
            argv = [lit ''scp'', local_path,
                    ascii_str (master_ssh_login (container_service self)) @ lit '':./'' @ remote_name]"
      by (auto simp: transfer_argv_def)
  next
    show "length (filter is_transfer tr) \<le> 3"
      using run_shape_transfer_count [OF shape launch] tr by simp
  next
    assume "SessionEnter \<in> set tr"
    with tr have "SessionEnter \<in> set body" by simp
    from run_shape_before_session [OF shape this] tr
    show "filter is_transfer (takeWhile (\<lambda>ev. ev \<noteq> SessionEnter) tr) =
             [Subprocess [lit ''scp'', script,
                          ascii_str (master_ssh_login (container_service self)) @ lit '':./'' @ []] 0,
              Subprocess [lit ''scp'', helper,
                          ascii_str (master_ssh_login (container_service self)) @ lit '':./'' @ []] 0,
              Subprocess [lit ''scp'', get_key_path (container_service self),
                          ascii_str (master_ssh_login (container_service self)) @ lit '':./''
                            @ basename (get_key_path (container_service self))] 0]"
      by (simp add: transfer_argv_def)
  qed
  show ?thesis
  proof (intro conjI impI)
    assume "deploy self h [] = (r, tr)"
    from deploy_shape [OF this] obtain body where
      "tr = SetupImage (docker_image self) (last (py_split 47 (docker_image self)))
               # Print (lit ''Mounting file share on all machines in cluster...\<newline>'') # body"
      "run_shape self (path_join (SCRIPTS_DIR h) (lit ''cifsMount.sh''))
                  (path_join (SCRIPTS_DIR h) (lit ''mountShares.sh''))
                  (DeployContainer (Some (container_registry self))) r body"
      by auto
    from main [OF this] show
      "\<forall>argv rc. Subprocess argv rc \<in> set tr \<longrightarrow>
         (\<exists>local_path remote_name.
            argv = [lit ''scp'', local_path,
                    ascii_str (master_ssh_login (container_service self)) @ lit '':./'' @ remote_name])"
      "length (filter is_transfer tr) \<le> 3"
      "SessionEnter \<in> set tr \<Longrightarrow>
           filter is_transfer (takeWhile (\<lambda>ev. ev \<noteq> SessionEnter) tr) =
             [Subprocess [lit ''scp'', path_join (SCRIPTS_DIR h) (lit ''cifsMount.sh''),
                          ascii_str (master_ssh_login (container_service self)) @ lit '':./'' @ []] 0,
              Subprocess [lit ''scp'', path_join (SCRIPTS_DIR h) (lit ''mountShares.sh''),
                          ascii_str (master_ssh_login (container_service self)) @ lit '':./'' @ []] 0,
              Subprocess [lit ''scp'', get_key_path (container_service self),
                          ascii_str (master_ssh_login (container_service self)) @ lit '':./''
                            @ basename (get_key_path (container_service self))] 0]"
      by simp_all
  next
    assume "example_deploy self h [] = (r, tr)"
    from example_deploy_shape [OF this] obtain body where
      "tr = SetupImage (docker_image self) (last (py_split 47 (docker_image self)))
               # Print (lit ''Mounting file share on all machines in cluster...\<newline>'') # body"
      "run_shape self (lit ''cifsMount.sh'') (lit ''mountShares.sh'')
                  (DeployContainerFromRegistry
                     (get_docker_repo_tag (container_registry self)
                        (last (py_split 47 (docker_image self))))
                     (Some (container_registry self))) r body"
      by auto
    from main [OF this] show
      "\<forall>argv rc. Subprocess argv rc \<in> set tr \<longrightarrow>
         (\<exists>local_path remote_name.
            argv = [lit ''scp'', local_path,
                    ascii_str (master_ssh_login (container_service self)) @ lit '':./'' @ remote_name])"
      "length (filter is_transfer tr) \<le> 3"
      "SessionEnter \<in> set tr \<Longrightarrow>
           filter is_transfer (takeWhile (\<lambda>ev. ev \<noteq> SessionEnter) tr) =
             [Subprocess [lit ''scp'', lit ''cifsMount.sh'',
                          ascii_str (master_ssh_login (container_service self)) @ lit '':./'' @ []] 0,
              Subprocess [lit ''scp'', lit ''mountShares.sh'',
                          ascii_str (master_ssh_login (container_service self)) @ lit '':./'' @ []] 0,
              Subprocess [lit ''scp'', get_key_path (container_service self),
                          ascii_str (master_ssh_login (container_service self)) @ lit '':./''
                            @ basename (get_key_path (container_service self))] 0]"
      by simp_all
  qed
qed

theorem three_transfers_before_session_witness:
  "SessionEnter \<in> set (snd (deploy sample_deployer sample_host []))
   \<and> Subprocess [lit ''scp'', lit ''/home/op/.ssh/id_rsa'',
                 lit ''azureuser@master.example.com:./id_rsa''] 0
       \<in> set (snd (deploy sample_deployer sample_host []))
   \<and> filter is_transfer
        (takeWhile (\<lambda>ev. ev \<noteq> SessionEnter) (snd (deploy sample_deployer sample_host []))) =
       [Subprocess [lit ''scp'', lit ''/opt/deployers/scripts/cifsMount.sh'',
                    lit ''azureuser@master.example.com:./''] 0,
        Subprocess [lit ''scp'', lit ''/opt/deployers/scripts/mountShares.sh'',
                    lit ''azureuser@master.example.com:./''] 0,
        Subprocess [lit ''scp'', lit ''/home/op/.ssh/id_rsa'',
                    lit ''azureuser@master.example.com:./id_rsa''] 0]
   \<and> SessionEnter \<in> set (snd (example_deploy sample_deployer sample_host []))
   \<and> length (filter is_transfer (snd (example_deploy sample_deployer sample_host []))) \<le> 3"
proof -
  obtain tr where run: "deploy sample_deployer sample_host [] = (Returned (), tr)"
    by (simp add: sample_deploy)
  with sample_deploy have mem: "SessionEnter \<in> set tr"
    "Subprocess [lit ''scp'', lit ''/home/op/.ssh/id_rsa'',
                 lit ''azureuser@master.example.com:./id_rsa''] 0 \<in> set tr"
    by auto
  obtain tr' where run': "example_deploy sample_deployer sample_host [] = (Returned (), tr')"
    by (simp add: sample_example_deploy)
  with sample_example_deploy have mem': "SessionEnter \<in> set tr'"
    by auto
  have paths: "path_join (SCRIPTS_DIR sample_host) (lit ''cifsMount.sh'')
                 = lit ''/opt/deployers/scripts/cifsMount.sh''"
    "path_join (SCRIPTS_DIR sample_host) (lit ''mountShares.sh'')
                 = lit ''/opt/deployers/scripts/mountShares.sh''"
    "basename (lit ''/home/op/.ssh/id_rsa'') = lit ''id_rsa''"
    by (simp_all add: SCRIPTS_DIR_def path_join_def basename_def sample_host_def lit_def)
  from three_transfers_before_session [of sample_deployer sample_host "Returned ()" tr] run mem
  have 1: "filter is_transfer (takeWhile (\<lambda>ev. ev \<noteq> SessionEnter) tr) =
       [Subprocess [lit ''scp'', lit ''/opt/deployers/scripts/cifsMount.sh'',
                    lit ''azureuser@master.example.com:./''] 0,
        Subprocess [lit ''scp'', lit ''/opt/deployers/scripts/mountShares.sh'',
                    lit ''azureuser@master.example.com:./''] 0,
        Subprocess [lit ''scp'', lit ''/home/op/.ssh/id_rsa'',
                    lit ''azureuser@master.example.com:./id_rsa''] 0]"
    by (simp add: paths sample_values lit_append)
  from three_transfers_before_session [of sample_deployer sample_host "Returned ()" tr'] run'
  have 2: "length (filter is_transfer tr') \<le> 3"
    by blast
  from run mem 1 run' mem' 2 show ?thesis by simp
qed

subsection \<open>What is written to the session\<close>

lemma accented_key_deploy:
  "deploy accented_key_deployer sample_host [] =
     (Raised UnicodeEncodeError,
      [SetupImage (lit ''mesosphere/simple-docker'') (lit ''simple-docker''),
       Print (lit ''Mounting file share on all machines in cluster...\<newline>''),
       OpenRead (lit ''/opt/deployers/scripts/cifsMountTemplate.sh''),
       OpenWrite (lit ''/opt/deployers/scripts/cifsMount.sh''),
       FileWrite (lit ''/opt/deployers/scripts/cifsMount.sh'')
         (utf8_encode (lit ''acct1 share1 user1 pw1\<newline>'')),
       Subprocess [lit ''scp'', lit ''/opt/deployers/scripts/cifsMount.sh'',
                   lit ''azureuser@master.example.com:./''] 0,
       Subprocess [lit ''scp'', lit ''/opt/deployers/scripts/mountShares.sh'',
                   lit ''azureuser@master.example.com:./''] 0,
       Subprocess [lit ''scp'', lit ''/home/op/.ssh/cl'' @ [233],
                   lit ''azureuser@master.example.com:./cl'' @ [233]] 0,
       SessionEnter,
       SessionExit])"
  by (simp add: run_defs accented_key_deployer_def sample_values sample_host_def lit_def)

text \<open>
  Claim C9. In a deployment of either variant, every byte string written to the input
  of the session is the ASCII encoding of a text. When the basename of the key path has
  a character outside ASCII and the run reaches the session, the first command is not
  written: the run ends with \<open>UnicodeEncodeError\<close>, nothing at all has been written
  to the session, and the session is left at once.
\<close>

theorem session_commands_are_ascii:
  "(deploy self h [] = (r, tr) \<or> example_deploy self h [] = (r, tr)) \<longrightarrow>
     (\<forall>b. StdinWrite b \<in> set tr \<longrightarrow>
        (\<exists>s. ascii_encode s = Inr b) \<and> (\<forall>c \<in> set b. (of_char c :: nat) < 128))
     \<and> (\<not> ascii (basename (get_key_path (container_service self))) \<and> SessionEnter \<in> set tr
          \<longrightarrow> r = Raised UnicodeEncodeError \<and> (\<forall>b. StdinWrite b \<notin> set tr)
              \<and> (\<exists>pre. tr = pre @ [SessionEnter, SessionExit]))"
proof
  assume "deploy self h [] = (r, tr) \<or> example_deploy self h [] = (r, tr)"
  then obtain script helper launch body where
    tr: "tr = SetupImage (docker_image self) (last (py_split 47 (docker_image self)))
               # Print (lit ''Mounting file share on all machines in cluster...\<newline>'') # body"
    and shape: "run_shape self script helper launch r body"
    and launch: "\<not> is_stdin_write launch"
    using deploy_shape [of self h "[]" r tr] example_deploy_shape [of self h "[]" r tr]
    by fastforce
  have written: "(\<exists>s. ascii_encode s = Inr b) \<and> (\<forall>c \<in> set b. (of_char c :: nat) < 128)"
    if "StdinWrite b \<in> set tr" for b
  proof -
    from that tr have "StdinWrite b \<in> set body" by simp
    from run_shape_stdin [OF shape this launch] obtain s where s: "ascii_encode s = Inr b"
      by blast
    then have "\<forall>c \<in> set s. c < 128" "b = map char_of s"
      by (auto simp: ascii_encode_def split: if_splits)
    then have "\<forall>c \<in> set b. (of_char c :: nat) < 128"
      by auto
    with s show ?thesis by blast
  qed
  have refused: "r = Raised UnicodeEncodeError \<and> (\<forall>b. StdinWrite b \<notin> set tr)
              \<and> (\<exists>pre. tr = pre @ [SessionEnter, SessionExit])"
    if "\<not> ascii (basename (get_key_path (container_service self)))" "SessionEnter \<in> set tr"
  proof -
    from that(2) tr have "SessionEnter \<in> set body" by simp
    from run_shape_not_ascii [OF shape that(1) this] obtain pre where
      *: "r = Raised UnicodeEncodeError" "\<forall>b. StdinWrite b \<notin> set body"
        "body = pre @ [SessionEnter, SessionExit]"
      by blast
    have "tr = (SetupImage (docker_image self) (last (py_split 47 (docker_image self)))
               # Print (lit ''Mounting file share on all machines in cluster...\<newline>'') # pre)
             @ [SessionEnter, SessionExit]"
      using tr *(3) by simp
    then have "\<exists>pre. tr = pre @ [SessionEnter, SessionExit]" by blast
    with * tr show ?thesis by simp
  qed
  from written refused
  show "(\<forall>b. StdinWrite b \<in> set tr \<longrightarrow>
        (\<exists>s. ascii_encode s = Inr b) \<and> (\<forall>c \<in> set b. (of_char c :: nat) < 128))
     \<and> (\<not> ascii (basename (get_key_path (container_service self))) \<and> SessionEnter \<in> set tr
          \<longrightarrow> r = Raised UnicodeEncodeError \<and> (\<forall>b. StdinWrite b \<notin> set tr)
              \<and> (\<exists>pre. tr = pre @ [SessionEnter, SessionExit]))"
    by blast
qed

theorem session_commands_are_ascii_witness:
  "StdinWrite (''chmod 600 '' @ map char_of (lit ''id_rsa'') @ ''\<newline>'')
     \<in> set (snd (deploy sample_deployer sample_host []))
   \<and> list_all (\<lambda>c. (of_char c :: nat) < 128)
       (''chmod 600 '' @ map char_of (lit ''id_rsa'') @ ''\<newline>'')
   \<and> \<not> ascii (basename (get_key_path (container_service accented_key_deployer)))
   \<and> SessionEnter \<in> set (snd (deploy accented_key_deployer sample_host []))
   \<and> fst (deploy accented_key_deployer sample_host []) = Raised UnicodeEncodeError
   \<and> list_all (\<lambda>ev. \<not> is_stdin_write ev) (snd (deploy accented_key_deployer sample_host []))"
proof -
  let ?b = "''chmod 600 '' @ map char_of (lit ''id_rsa'') @ ''\<newline>''"
  obtain r tr where run: "deploy sample_deployer sample_host [] = (r, tr)"
    by (cases "deploy sample_deployer sample_host []")
  with sample_deploy have mem: "StdinWrite ?b \<in> set tr"
    by auto
  from session_commands_are_ascii [of sample_deployer sample_host r tr] run mem
  have 1: "\<forall>c \<in> set ?b. (of_char c :: nat) < 128"
    by blast
  obtain r' tr' where run': "deploy accented_key_deployer sample_host [] = (r', tr')"
    by (cases "deploy accented_key_deployer sample_host []")
  with accented_key_deploy have enter: "SessionEnter \<in> set tr'"
    by auto
  have key: "\<not> ascii (basename (get_key_path (container_service accented_key_deployer)))"
    by (simp add: accented_key_deployer_def ascii_def basename_def lit_def)
  from session_commands_are_ascii [of accented_key_deployer sample_host r' tr'] run' key enter
  have 2: "r' = Raised UnicodeEncodeError \<and> (\<forall>b. StdinWrite b \<notin> set tr')"
    by blast
  then have "\<forall>ev \<in> set tr'. \<not> is_stdin_write ev"
  proof (intro ballI)
    fix ev assume "ev \<in> set tr'"
    with 2 show "\<not> is_stdin_write ev" by (cases ev) auto
  qed
  with run mem 1 run' key enter 2 show ?thesis
    by (simp add: list_all_iff)
qed

subsection \<open>The remote name of the key\<close>

text \<open>
  Claim C10. In a deployment of either variant that gets as far as closing the input of
  the session, one string, the basename of the key path, is the remote name in the
  destination of the key transfer and the file name in the \<open>chmod\<close>, \<open>ssh-add\<close> and
  \<open>sh mountShares.sh ~/\<close> commands, which are, with the start of the agent, all that is
  written to the session. The string is ASCII, and the commands carry its ASCII encoding.
\<close>

theorem key_name_is_consistent:
  "(deploy self h [] = (r, tr) \<or> example_deploy self h [] = (r, tr))
   \<and> Communicate input \<in> set tr \<longrightarrow>
     (\<exists>k kb. k = basename (get_key_path (container_service self))
        \<and> ascii_encode k = Inr kb
        \<and> Subprocess [lit ''scp'', get_key_path (container_service self),
                       ascii_str (master_ssh_login (container_service self)) @ lit '':./'' @ k] 0
            \<in> set tr
        \<and> filter is_stdin_write tr =
            [StdinWrite (''chmod 600 '' @ kb @ ''\<newline>''),
             StdinWrite ''eval ssh-agent -s\<newline>'',
             StdinWrite (''ssh-add '' @ kb @ ''\<newline>''),
             StdinWrite (''sh mountShares.sh ~/'' @ kb @ ''\<newline>'')])"
proof
  let ?k = "basename (get_key_path (container_service self))"
  assume a: "(deploy self h [] = (r, tr) \<or> example_deploy self h [] = (r, tr))
             \<and> Communicate input \<in> set tr"
  then obtain script helper launch body where
    tr: "tr = SetupImage (docker_image self) (last (py_split 47 (docker_image self)))
               # Print (lit ''Mounting file share on all machines in cluster...\<newline>'') # body"
    and shape: "run_shape self script helper launch r body"
    and launch: "\<not> is_stdin_write launch"
    using deploy_shape [of self h "[]" r tr] example_deploy_shape [of self h "[]" r tr]
    by fastforce
  from a tr have "Communicate input \<in> set body" by simp
  from run_shape_communicate [OF shape this launch]
  have k: "ascii ?k"
    and sent: "Subprocess (transfer_argv self (get_key_path (container_service self)) ?k) 0
                 \<in> set body"
    and cmds: "filter is_stdin_write body =
         [StdinWrite (''chmod 600 '' @ map char_of ?k @ ''\<newline>''),
          StdinWrite ''eval ssh-agent -s\<newline>'',
          StdinWrite (''ssh-add '' @ map char_of ?k @ ''\<newline>''),
          StdinWrite (''sh mountShares.sh ~/'' @ map char_of ?k @ ''\<newline>'')]"
    by simp_all
  have 1: "ascii_encode ?k = Inr (map char_of ?k)"
    using k by (rule ascii_encode_ascii)
  have 2: "Subprocess [lit ''scp'', get_key_path (container_service self),
                       ascii_str (master_ssh_login (container_service self)) @ lit '':./'' @ ?k] 0
            \<in> set tr"
    using sent tr by (simp add: transfer_argv_def)
  have 3: "filter is_stdin_write tr =
         [StdinWrite (''chmod 600 '' @ map char_of ?k @ ''\<newline>''),
          StdinWrite ''eval ssh-agent -s\<newline>'',
          StdinWrite (''ssh-add '' @ map char_of ?k @ ''\<newline>''),
          StdinWrite (''sh mountShares.sh ~/'' @ map char_of ?k @ ''\<newline>'')]"
    using cmds tr by simp
  from 1 2 3
  show "\<exists>k kb. k = basename (get_key_path (container_service self))
        \<and> ascii_encode k = Inr kb
        \<and> Subprocess [lit ''scp'', get_key_path (container_service self),
                       ascii_str (master_ssh_login (container_service self)) @ lit '':./'' @ k] 0
            \<in> set tr
        \<and> filter is_stdin_write tr =
            [StdinWrite (''chmod 600 '' @ kb @ ''\<newline>''),
             StdinWrite ''eval ssh-agent -s\<newline>'',
             StdinWrite (''ssh-add '' @ kb @ ''\<newline>''),
             StdinWrite (''sh mountShares.sh ~/'' @ kb @ ''\<newline>'')]"
    by blast
qed

theorem key_name_is_consistent_witness:
  "Communicate ''exit\<newline>'' \<in> set (snd (example_deploy sample_deployer sample_host []))
   \<and> basename (get_key_path (container_service sample_deployer)) = lit ''id_rsa''
   \<and> ascii_encode (lit ''id_rsa'') = Inr ''id_rsa''
   \<and> Subprocess [lit ''scp'', lit ''/home/op/.ssh/id_rsa'',
                  lit ''azureuser@master.example.com:./id_rsa''] 0
       \<in> set (snd (example_deploy sample_deployer sample_host []))
   \<and> filter is_stdin_write (snd (example_deploy sample_deployer sample_host [])) =
       [StdinWrite ''chmod 600 id_rsa\<newline>'',
        StdinWrite ''eval ssh-agent -s\<newline>'',
        StdinWrite ''ssh-add id_rsa\<newline>'',
        StdinWrite ''sh mountShares.sh ~/id_rsa\<newline>'']"
proof -
  obtain r tr where run: "example_deploy sample_deployer sample_host [] = (r, tr)"
    by (cases "example_deploy sample_deployer sample_host []")
  with sample_example_deploy have mem: "Communicate ''exit\<newline>'' \<in> set tr"
    by auto
  have path: "get_key_path (container_service sample_deployer) = lit ''/home/op/.ssh/id_rsa''"
    by (simp add: sample_deployer_def)
  have name: "basename (lit ''/home/op/.ssh/id_rsa'') = lit ''id_rsa''"
    by (simp add: basename_def lit_def)
  have base: "basename (get_key_path (container_service sample_deployer)) = lit ''id_rsa''"
    by (simp only: path name)
  have enc: "ascii_encode (lit ''id_rsa'') = Inr ''id_rsa''"
    by (rule ascii_encode_lit) simp
  have login: "ascii_str (master_ssh_login (container_service sample_deployer)) @ lit '':./''
               @ lit ''id_rsa'' = lit ''azureuser@master.example.com:./id_rsa''"
    by (simp add: sample_values lit_def)
  from key_name_is_consistent [of sample_deployer sample_host r tr "''exit\<newline>''"] run mem
  obtain kb where
    "ascii_encode (basename (get_key_path (container_service sample_deployer))) = Inr kb"
    "Subprocess [lit ''scp'', get_key_path (container_service sample_deployer),
         ascii_str (master_ssh_login (container_service sample_deployer)) @ lit '':./''
           @ basename (get_key_path (container_service sample_deployer))] 0 \<in> set tr"
    "filter is_stdin_write tr =
            [StdinWrite (''chmod 600 '' @ kb @ ''\<newline>''),
             StdinWrite ''eval ssh-agent -s\<newline>'',
             StdinWrite (''ssh-add '' @ kb @ ''\<newline>''),
             StdinWrite (''sh mountShares.sh ~/'' @ kb @ ''\<newline>'')]"
    by blast
  then have "Inr ''id_rsa'' = (Inr kb :: error + bytes)"
    "Subprocess [lit ''scp'', lit ''/home/op/.ssh/id_rsa'',
                  lit ''azureuser@master.example.com:./id_rsa''] 0 \<in> set tr"
    "filter is_stdin_write tr =
            [StdinWrite (''chmod 600 '' @ kb @ ''\<newline>''),
             StdinWrite ''eval ssh-agent -s\<newline>'',
             StdinWrite (''ssh-add '' @ kb @ ''\<newline>''),
             StdinWrite (''sh mountShares.sh ~/'' @ kb @ ''\<newline>'')]"
    by (simp_all only: path name enc login)
  then have "kb = ''id_rsa''"
    "Subprocess [lit ''scp'', lit ''/home/op/.ssh/id_rsa'',
                  lit ''azureuser@master.example.com:./id_rsa''] 0 \<in> set tr"
    "filter is_stdin_write tr =
            [StdinWrite (''chmod 600 '' @ kb @ ''\<newline>''),
             StdinWrite ''eval ssh-agent -s\<newline>'',
             StdinWrite (''ssh-add '' @ kb @ ''\<newline>''),
             StdinWrite (''sh mountShares.sh ~/'' @ kb @ ''\<newline>'')]"
    by simp_all
  with run mem base enc show ?thesis
    by simp
qed

subsection \<open>The launch\<close>

text \<open>
  Claim C3, as amended. Both deployers with a registry stage the image first and launch
  last, once, and only in a run that returns; the launch passes the registry helper. In
  \<open>example.py\<close> it passes with it the reference that the registry gives for the
  registry-local image name. In \<open>deployers/acr_container_deployer.py\<close> it passes the
  registry helper alone. The deployer without a registry passes the bare reference and no
  registry. (The claim as written fails on the second:
  see \<open>launch_without_image_reference\<close>.)
\<close>

theorem launch_passes_registry:
  "(deploy self h [] = (r, tr) \<longrightarrow>
      (\<exists>body. tr = SetupImage (docker_image self) (last (py_split 47 (docker_image self))) # body)
      \<and> filter is_launch tr =
          (if r = Returned () then [DeployContainer (Some (container_registry self))] else [])
      \<and> (r = Returned () \<longrightarrow> last tr = DeployContainer (Some (container_registry self))))
   \<and> (example_deploy self h [] = (r, tr) \<longrightarrow>
      (\<exists>body. tr = SetupImage (docker_image self) (last (py_split 47 (docker_image self))) # body)
      \<and> filter is_launch tr =
          (if r = Returned ()
           then [DeployContainerFromRegistry
                   (get_docker_repo_tag (container_registry self)
                      (last (py_split 47 (docker_image self))))
                   (Some (container_registry self))]
           else [])
      \<and> (r = Returned () \<longrightarrow>
            last tr = DeployContainerFromRegistry
                        (get_docker_repo_tag (container_registry self)
                           (last (py_split 47 (docker_image self))))
                        (Some (container_registry self))))
   \<and> container_deployer_deploy self [] =
       (Returned (), [DeployContainerFromRegistry (docker_image self) None])"
proof (intro conjI impI)
  assume "deploy self h [] = (r, tr)"
  from deploy_shape [OF this] obtain body where
    tr: "tr = SetupImage (docker_image self) (last (py_split 47 (docker_image self)))
               # Print (lit ''Mounting file share on all machines in cluster...\<newline>'') # body"
    and shape: "run_shape self (path_join (SCRIPTS_DIR h) (lit ''cifsMount.sh''))
                  (path_join (SCRIPTS_DIR h) (lit ''mountShares.sh''))
                  (DeployContainer (Some (container_registry self))) r body"
    by auto
  from run_shape_launch [OF shape]
  have *: "filter is_launch body =
             (if r = Returned () then [DeployContainer (Some (container_registry self))] else [])"
    "r = Returned () \<longrightarrow> last body = DeployContainer (Some (container_registry self))"
    by simp_all
  from tr show "\<exists>body. tr = SetupImage (docker_image self)
                               (last (py_split 47 (docker_image self))) # body"
    by blast
  from * tr show "filter is_launch tr =
          (if r = Returned () then [DeployContainer (Some (container_registry self))] else [])"
    by simp
  show "last tr = DeployContainer (Some (container_registry self))" if "r = Returned ()"
  proof -
    from that *(1) have "body \<noteq> []" by auto
    with that *(2) tr show ?thesis by simp
  qed
next
  let ?launch = "DeployContainerFromRegistry
                   (get_docker_repo_tag (container_registry self)
                      (last (py_split 47 (docker_image self))))
                   (Some (container_registry self))"
  assume "example_deploy self h [] = (r, tr)"
  from example_deploy_shape [OF this] obtain body where
    tr: "tr = SetupImage (docker_image self) (last (py_split 47 (docker_image self)))
               # Print (lit ''Mounting file share on all machines in cluster...\<newline>'') # body"
    and shape: "run_shape self (lit ''cifsMount.sh'') (lit ''mountShares.sh'') ?launch r body"
    by auto
  from run_shape_launch [OF shape]
  have *: "filter is_launch body = (if r = Returned () then [?launch] else [])"
    "r = Returned () \<longrightarrow> last body = ?launch"
    by simp_all
  from tr show "\<exists>body. tr = SetupImage (docker_image self)
                               (last (py_split 47 (docker_image self))) # body"
    by blast
  from * tr show "filter is_launch tr = (if r = Returned () then [?launch] else [])"
    by simp
  show "last tr = ?launch" if "r = Returned ()"
  proof -
    from that *(1) have "body \<noteq> []" by auto
    with that *(2) tr show ?thesis by simp
  qed
next
  show "container_deployer_deploy self [] =
       (Returned (), [DeployContainerFromRegistry (docker_image self) None])"
    by (simp add: container_deployer_deploy_def deploy_container_from_registry_def emit_def)
qed

theorem launch_passes_registry_witness:
  "example_deploy sample_deployer sample_host []
     = (Returned (), snd (example_deploy sample_deployer sample_host []))
   \<and> filter is_launch (snd (example_deploy sample_deployer sample_host [])) =
       [DeployContainerFromRegistry (lit ''user1.azurecr.io/simple-docker'')
          (Some (container_registry sample_deployer))]
   \<and> deploy sample_deployer sample_host []
     = (Returned (), snd (deploy sample_deployer sample_host []))
   \<and> filter is_launch (snd (deploy sample_deployer sample_host [])) =
       [DeployContainer (Some (container_registry sample_deployer))]"
proof -
  have e: "example_deploy sample_deployer sample_host []
           = (Returned (), snd (example_deploy sample_deployer sample_host []))"
    by (simp add: sample_example_deploy)
  have d: "deploy sample_deployer sample_host []
           = (Returned (), snd (deploy sample_deployer sample_host []))"
    by (simp add: sample_deploy)
  have tag: "get_docker_repo_tag (container_registry sample_deployer)
               (last (py_split 47 (docker_image sample_deployer)))
             = lit ''user1.azurecr.io/simple-docker''"
    by (simp add: sample_deployer_def lit_def)
  from launch_passes_registry [of sample_deployer sample_host "Returned ()"
      "snd (example_deploy sample_deployer sample_host [])"] e
  have 1: "filter is_launch (snd (example_deploy sample_deployer sample_host [])) =
       [DeployContainerFromRegistry (lit ''user1.azurecr.io/simple-docker'')
          (Some (container_registry sample_deployer))]"
    by (simp only: tag if_True simp_thms)
  from launch_passes_registry [of sample_deployer sample_host "Returned ()"
      "snd (deploy sample_deployer sample_host [])"] d
  have 2: "filter is_launch (snd (deploy sample_deployer sample_host [])) =
       [DeployContainer (Some (container_registry sample_deployer))]"
    by (simp only: if_True simp_thms)
  from e 1 d 2 show ?thesis by blast
qed

theorem launch_without_image_reference:
  "fst (deploy sample_deployer sample_host []) = Returned ()
   \<and> hd (snd (deploy sample_deployer sample_host []))
       = SetupImage (lit ''mesosphere/simple-docker'') (lit ''simple-docker'')
   \<and> last (snd (deploy sample_deployer sample_host []))
       = DeployContainer (Some (container_registry sample_deployer))
   \<and> launch_image (last (snd (deploy sample_deployer sample_host []))) = None"
  by (simp add: sample_deploy)

end
